theory Spec2Isabelle
  imports Complex_Main "HOL-Library.Sublist" "HOL-Library.List_Lexorder" "HOL-Library.Char_ord"
begin

section \<open>Text primitives\<close>

text \<open>
  Source texts are modelled as HOL strings. A character of the model stands for the UTF-16
  code unit of the same number, so the model covers the texts over U+0000..U+00FF. Among
  these, \<open>\s\<close> and \<open>trim\<close> know the white space U+0009..U+000D, U+0020 and
  U+00A0; \<open>toLowerCase\<close> folds \<open>A\<close>..\<open>Z\<close> and the letters U+00C0..U+00DE
  (U+00D7, the multiplication sign, is no letter); and \<open>\b\<close> uses the word characters
  \<open>[A-Za-z0-9_]\<close>. JavaScript numbers are modelled as exact rationals (\<open>rat\<close>);
  floating-point rounding is not modelled.
\<close>

definition isSpace :: "char \<Rightarrow> bool" where
  "isSpace c = (let n = (of_char c :: nat) in n = 32 \<or> (9 \<le> n \<and> n \<le> 13) \<or> n = 160)"

definition isWord :: "char \<Rightarrow> bool" where
  "isWord c = (let n = (of_char c :: nat) in
     (48 \<le> n \<and> n \<le> 57) \<or> (65 \<le> n \<and> n \<le> 90) \<or> n = 95 \<or> (97 \<le> n \<and> n \<le> 122))"

definition toLowerChar :: "char \<Rightarrow> char" where
  "toLowerChar c =
     (let n = (of_char c :: nat)
      in if (65 \<le> n \<and> n \<le> 90) \<or> (192 \<le> n \<and> n \<le> 222 \<and> n \<noteq> 215) then char_of (n + 32)
         else c)"

text \<open>
  The same three functions on the bits of a character, least significant first, as
  code equations: evaluation then needs no arithmetic.
\<close>

definition letterBits :: "bool \<Rightarrow> bool \<Rightarrow> bool \<Rightarrow> bool \<Rightarrow> bool \<Rightarrow> bool" where
  "letterBits b0 b1 b2 b3 b4 =
     ((b0 \<or> b1 \<or> b2 \<or> b3 \<or> b4) \<and> \<not> (b4 \<and> b3 \<and> (b2 \<or> (b1 \<and> b0))))"

definition toLowerCase :: "string \<Rightarrow> string" where
  "toLowerCase s = map toLowerChar s"

definition trim :: "string \<Rightarrow> string" where
  "trim s = rev (dropWhile isSpace (rev (dropWhile isSpace s)))"

text \<open>\<open>hay.includes(needle)\<close>: the needle occurs as a contiguous substring.\<close>

fun includesStr :: "string \<Rightarrow> string \<Rightarrow> bool" where
  "includesStr [] needle = (needle = [])"
| "includesStr (c # cs) needle = (prefix needle (c # cs) \<or> includesStr cs needle)"

text \<open>\<open>xs.join(sep)\<close>.\<close>

fun join :: "string \<Rightarrow> string list \<Rightarrow> string" where
  "join sep [] = []"
| "join sep [x] = x"
| "join sep (x # y # ys) = x @ sep @ join sep (y # ys)"

text \<open>
  \<open>new Set(xs)\<close>: a JavaScript set keeps its members in insertion order, the first
  occurrence of each; \<open>size\<close> is \<open>length\<close> and \<open>has\<close> is membership.
\<close>

definition setAdd :: "'a list \<Rightarrow> 'a \<Rightarrow> 'a list" where
  "setAdd s x = (if x \<in> set s then s else s @ [x])"

definition newSet :: "'a list \<Rightarrow> 'a list" where
  "newSet xs = foldl setAdd [] xs"

section \<open>Regular expressions of the entity table\<close>

text \<open>
  The patterns of \<open>ENTITY_PATTERNS\<close> use literals (matched case-insensitively, flag
  \<open>i\<close>), \<open>\s\<close>, \<open>\s+\<close>, an optional literal (\<open>\.?\<close>), the word boundary
  \<open>\b\<close> and alternation. \<open>matchAtoms\<close> is the backtracking matcher: it returns the
  lengths of all matches of a sequence at the cursor, in the order the engine tries them
  (greedy \<open>\s+\<close> and \<open>?\<close> first). The cursor is the rest of the text and whether the
  character before it is a word character.
\<close>

datatype atom = Lit char | Sp | SpPlus | OptLit char | Wb

fun matchAtoms :: "atom list \<Rightarrow> bool \<Rightarrow> string \<Rightarrow> nat \<Rightarrow> nat list" where
  "matchAtoms [] pw rest n = [n]"
| "matchAtoms (Lit c # as) pw [] n = []"
| "matchAtoms (Lit c # as) pw (d # ds) n =
     (if toLowerChar d = toLowerChar c then matchAtoms as (isWord d) ds (Suc n) else [])"
| "matchAtoms (Sp # as) pw [] n = []"
| "matchAtoms (Sp # as) pw (d # ds) n =
     (if isSpace d then matchAtoms as False ds (Suc n) else [])"
| "matchAtoms (SpPlus # as) pw [] n = []"
| "matchAtoms (SpPlus # as) pw (d # ds) n =
     (if isSpace d
      then matchAtoms (SpPlus # as) False ds (Suc n) @ matchAtoms as False ds (Suc n)
      else [])"
| "matchAtoms (OptLit c # as) pw [] n = matchAtoms as pw [] n"
| "matchAtoms (OptLit c # as) pw (d # ds) n =
     (if toLowerChar d = toLowerChar c then matchAtoms as (isWord d) ds (Suc n) else [])
     @ matchAtoms as pw (d # ds) n"
| "matchAtoms (Wb # as) pw rest n =
     (if pw \<noteq> (case rest of [] \<Rightarrow> False | d # _ \<Rightarrow> isWord d)
      then matchAtoms as pw rest n else [])"

text \<open>
  A pattern is the list of its alternatives, each a full atom sequence. The first
  alternative that matches, with its first way of matching, is the match.
\<close>

type_synonym pattern = "atom list list"

definition firstMatch :: "pattern \<Rightarrow> bool \<Rightarrow> string \<Rightarrow> nat option" where
  "firstMatch alts pw rest =
     (case concat (map (\<lambda>a. matchAtoms a pw rest 0) alts) of [] \<Rightarrow> None | n # _ \<Rightarrow> Some n)"

text \<open>
  The loop \<open>while ((match = regex.exec(text)) !== null)\<close> of a global regex: the
  leftmost match is reported and the search resumes behind it. A match of length 0 would
  make the source loop forever; no pattern of the table has one
  (\<open>ENTITY_PATTERNS_consume\<close> below), and the model stops scanning there.
\<close>

fun execAll :: "pattern \<Rightarrow> bool \<Rightarrow> string \<Rightarrow> string list" where
  "execAll alts pw [] = []"
| "execAll alts pw (c # cs) =
     (case firstMatch alts pw (c # cs) of
        None \<Rightarrow> execAll alts (isWord c) cs
      | Some n \<Rightarrow>
          if n = 0 then []
          else take n (c # cs)
               # execAll alts (isWord (last (take n (c # cs)))) (drop n (c # cs)))"

text \<open>
  Notation for the table: in \<open>alt\<close> a blank of the word list stands for \<open>\s+\<close>;
  \<open>grp\<close> is \<open>\b(a|b|...)\b\<close>, whose capture group is the whole match, so that
  \<open>match[1] || match[0]\<close> is the matched text.
\<close>

definition alt :: "string \<Rightarrow> atom list" where
  "alt s = map (\<lambda>c. if c = CHR '' '' then SpPlus else Lit c) s"

definition grp :: "string list \<Rightarrow> pattern" where
  "grp ws = map (\<lambda>w. Wb # alt w @ [Wb]) ws"

definition ENTITY_PATTERNS :: "(string \<times> pattern list) list" where
  "ENTITY_PATTERNS =
   [(''people'',
     [grp [''trump'', ''donald trump''],
      grp [''biden'', ''joe biden''],
      grp [''harris'', ''kamala''],
      grp [''musk'', ''elon musk'', ''elon''],
      grp [''putin'', ''vladimir putin''],
      grp [''xi jinping'', ''xi''],
      grp [''zelensky'', ''zelenskyy''],
      grp [''powell'', ''jerome powell''],
      grp [''desantis'', ''ron desantis''],
      grp [''newsom'', ''gavin newsom''],
      grp [''vance'', ''jd vance''],
      grp [''ramaswamy'', ''vivek''],
      grp [''haley'', ''nikki haley''],
      grp [''stephen miran'', ''miran''],
      grp [''judy shelton'', ''shelton''],
      grp [''kevin warsh'', ''warsh''],
      grp [''kevin hassett'', ''hassett''],
      grp [''christopher waller'', ''waller''],
      grp [''michelle bowman'', ''bowman''],
      grp [''rick rieder'', ''rieder'']]),
    (''orgs'',
     [grp [''fed'', ''federal reserve'', ''fomc''],
      grp [''openai''],
      grp [''spacex''],
      grp [''tesla''],
      grp [''nvidia''],
      grp [''nato''],
      [Wb # alt ''un'' @ [Sp], alt ''united nations'' @ [Wb]],
      grp [''doge'', ''department of government efficiency'']]),
    (''places'',
     [grp [''ukraine'', ''ukrainian''],
      grp [''russia'', ''russian''],
      grp [''china'', ''chinese'', ''beijing''],
      grp [''iran'', ''iranian'', ''tehran''],
      grp [''gaza'', ''palestinian'', ''hamas''],
      grp [''israel'', ''israeli''],
      grp [''taiwan'', ''taiwanese''],
      grp [''north korea'', ''dprk'', ''pyongyang''],
      grp [''mexico'', ''mexican''],
      grp [''mars''],
      [[Wb, Lit CHR ''u'', OptLit CHR ''.'', Lit CHR ''k'', OptLit CHR ''.'', Wb],
       Wb # alt ''united kingdom'' @ [Wb],
       Wb # alt ''britain'' @ [Wb]]]),
    (''topics'',
     [grp [''shutdown'', ''government shutdown''],
      grp [''interest rate'', ''rate cut'', ''rate hike''],
      grp [''inflation''],
      grp [''recession''],
      grp [''tariff'', ''tariffs''],
      grp [''impeach'', ''impeachment''],
      grp [''bitcoin'', ''btc''],
      grp [''ethereum'', ''eth''],
      grp [''ipo''],
      grp [''ai '', ''artificial intelligence''],
      grp [''ceasefire''],
      grp [''executive order''],
      grp [''nominate'', ''nomination''],
      grp [''leader'', ''supreme leader''],
      grp [''successor'']])]"

section \<open>Entity extraction\<close>

record ExtractedEntity =
  "value" :: string
  category :: string
  normalized :: string

definition mappings :: "(string \<times> string) list" where
  "mappings =
   [(''donald trump'', ''trump''), (''donald j trump'', ''trump''), (''donald j. trump'', ''trump''),
    (''joe biden'', ''biden''), (''joseph biden'', ''biden''),
    (''kamala harris'', ''harris''), (''kamala'', ''harris''),
    (''elon musk'', ''musk''), (''elon'', ''musk''),
    (''vladimir putin'', ''putin''),
    (''xi jinping'', ''xi''),
    (''jerome powell'', ''powell''),
    (''ron desantis'', ''desantis''),
    (''gavin newsom'', ''newsom''),
    (''jd vance'', ''vance''),
    (''nikki haley'', ''haley''),
    (''vivek ramaswamy'', ''ramaswamy''), (''vivek'', ''ramaswamy''),
    (''stephen miran'', ''miran''),
    (''judy shelton'', ''shelton''),
    (''kevin warsh'', ''warsh''),
    (''kevin hassett'', ''hassett''),
    (''christopher waller'', ''waller''),
    (''michelle bowman'', ''bowman''),
    (''rick rieder'', ''rieder''),
    (''federal reserve'', ''fed''), (''fomc'', ''fed''),
    (''united nations'', ''un''),
    (''department of government efficiency'', ''doge''),
    (''north korea'', ''dprk''), (''pyongyang'', ''dprk''),
    (''united kingdom'', ''uk''), (''britain'', ''uk''), (''u.k.'', ''uk''),
    (''palestinian'', ''gaza''), (''hamas'', ''gaza''),
    (''israeli'', ''israel''),
    (''btc'', ''bitcoin''),
    (''eth'', ''ethereum''),
    (''artificial intelligence'', ''ai''),
    (''government shutdown'', ''shutdown''),
    (''rate cut'', ''interest rate''), (''rate hike'', ''interest rate'')]"

text \<open>\<open>mappings[lower] || lower\<close>; every mapped value is a non-empty string.\<close>

definition normalizeEntity :: "string \<Rightarrow> string" where
  "normalizeEntity entity =
     (let lower = trim (toLowerCase entity)
      in case map_of mappings lower of Some m \<Rightarrow> m | None \<Rightarrow> lower)"

text \<open>
  The state of the extraction loops is the pair of \<open>entities\<close> and \<open>seen\<close>
  (the set of normalized keys already emitted).
\<close>

definition addMatch ::
  "string \<Rightarrow> ExtractedEntity list \<times> string list \<Rightarrow> string
   \<Rightarrow> ExtractedEntity list \<times> string list" where
  "addMatch cat st v =
     (let nrm = normalizeEntity v
      in if nrm \<in> set (snd st) then st
         else (fst st @ [\<lparr>value = v, category = cat, normalized = nrm\<rparr>], setAdd (snd st) nrm))"

definition scanPattern ::
  "string \<Rightarrow> string \<Rightarrow> ExtractedEntity list \<times> string list \<Rightarrow> pattern
   \<Rightarrow> ExtractedEntity list \<times> string list" where
  "scanPattern text cat st p = foldl (addMatch cat) st (execAll p False text)"

definition scanGroup ::
  "string \<Rightarrow> ExtractedEntity list \<times> string list \<Rightarrow> string \<times> pattern list
   \<Rightarrow> ExtractedEntity list \<times> string list" where
  "scanGroup text st g = foldl (scanPattern text (fst g)) st (snd g)"

definition extractEntities :: "string \<Rightarrow> ExtractedEntity list" where
  "extractEntities text = fst (foldl (scanGroup text) ([], []) ENTITY_PATTERNS)"

section \<open>Semantic context\<close>

datatype SemanticContext =
  leadership | action | price | timing | outcome | comparison | unknown

text \<open>\<open>Object.entries(CONTEXT_KEYWORDS)\<close>, in the order the keys are written.\<close>

definition CONTEXT_KEYWORDS :: "(SemanticContext \<times> string list) list" where
  "CONTEXT_KEYWORDS =
   [(leadership, [''nominate'', ''nomination'', ''successor'', ''prime minister'', ''chief'',
                  ''chair'', ''chairman'', ''president'', ''elect'', ''win'', ''governor'',
                  ''senator'', ''mayor'', ''appointee'']),
    (action, [''strike'', ''attack'', ''ban'', ''sanction'', ''deport'', ''pardon'', ''invade'',
              ''war'', ''ceasefire'', ''shutdown'', ''impeach'', ''veto'']),
    (price, [''cost'', ''above'', ''below'', ''reach'', ''hit'', ''price'', ''rate'', ''gdp'',
             ''inflation'', ''cpi'']),
    (timing, [''before'', ''after'', ''by'', ''date'', ''deadline'', ''end of'', ''year'',
              ''month'']),
    (outcome, [''happen'', ''occur'', ''will'', ''resolve'']),
    (comparison, [''more'', ''less'', ''higher'', ''lower'', ''beat'', ''vs'']),
    (unknown, [])]"

definition keywordCount :: "string \<Rightarrow> string list \<Rightarrow> nat" where
  "keywordCount lower keywords = length (filter (\<lambda>kw. includesStr lower kw) keywords)"

text \<open>One iteration of the loop over the entries; the state is \<open>(best, bestCount)\<close>.\<close>

definition contextStep ::
  "string \<Rightarrow> SemanticContext \<times> nat \<Rightarrow> SemanticContext \<times> string list
   \<Rightarrow> SemanticContext \<times> nat" where
  "contextStep lower st e =
     (if fst e = unknown then st
      else let count = keywordCount lower (snd e)
           in if count > snd st then (fst e, count) else st)"

definition extractSemanticContext :: "string \<Rightarrow> SemanticContext" where
  "extractSemanticContext text =
     fst (foldl (contextStep (toLowerCase text)) (unknown, 0) CONTEXT_KEYWORDS)"

fun compatible :: "SemanticContext \<Rightarrow> SemanticContext list" where
  "compatible leadership = [outcome, timing]"
| "compatible action = [outcome, timing]"
| "compatible price = [timing, comparison]"
| "compatible timing = [leadership, action, price, outcome]"
| "compatible outcome = [leadership, action, timing]"
| "compatible comparison = [price]"
| "compatible unknown = []"

definition areContextsCompatible :: "SemanticContext \<Rightarrow> SemanticContext \<Rightarrow> bool" where
  "areContextsCompatible ctx1 ctx2 =
     (if ctx1 = unknown \<or> ctx2 = unknown then True
      else if ctx1 = ctx2 then True
      else ctx2 \<in> set (compatible ctx1) \<or> ctx1 \<in> set (compatible ctx2))"

section \<open>Entity-based pre-filter\<close>

datatype json =
  JNull | JBool bool | JNum rat | JStr string | JArr "json list" | JObj "(string \<times> json) list"

text \<open>
  The text of the column \<open>markets_json\<close> is only ever tested for emptiness and handed
  to \<open>JSON.parse\<close>. It is represented by what \<open>JSON.parse\<close> makes of it:
  \<open>NotJSON s\<close> is a text \<open>s\<close> that \<open>JSON.parse\<close> rejects with a
  \<open>SyntaxError\<close> (the empty string among them), \<open>JSONText v\<close> a (non-empty) text
  that parses to the value \<open>v\<close>.
\<close>

datatype json_text = NotJSON string | JSONText json

text \<open>
  The fields of \<open>KalshiEventRow\<close> that the matching service reads; the object that
  \<open>matchSingleMarket\<close> builds for \<open>preFilterEvents\<close> has the same four fields.
\<close>

record KalshiEventRow =
  event_ticker :: string
  title :: string
  subtitle :: "string option"
  markets_json :: "json_text option"

record PreFilterResult =
  eventTicker :: string
  eventTitle :: string
  cand_subtitle :: string
  entityScore :: rat
  matchedEntities :: "string list"
  contextCompatible :: bool

text \<open>\<open>`${event.title} ${event.subtitle || ""}`\<close>\<close>

definition eventText :: "KalshiEventRow \<Rightarrow> string" where
  "eventText event = title event @ '' '' @ (case subtitle event of None \<Rightarrow> [] | Some s \<Rightarrow> s)"

text \<open>The members of the question's key set that the event's key set has.\<close>

definition matchedOf :: "string list \<Rightarrow> string list \<Rightarrow> string list" where
  "matchedOf questionNormalized eventNormalized =
     filter (\<lambda>ne. ne \<in> set eventNormalized) questionNormalized"

definition scoreOf :: "string list \<Rightarrow> string list \<Rightarrow> rat" where
  "scoreOf questionNormalized eventNormalized =
     of_nat (length (matchedOf questionNormalized eventNormalized) * 2)
     / of_nat (length questionNormalized + length eventNormalized)"

text \<open>
  The body of the loop over the events: \<open>None\<close> is \<open>continue\<close>, \<open>Some r\<close> is
  \<open>results.push(r)\<close>.
\<close>

definition candidateOf ::
  "string list \<Rightarrow> SemanticContext \<Rightarrow> KalshiEventRow \<Rightarrow> PreFilterResult option" where
  "candidateOf questionNormalized questionContext event =
     (let eventEntities = extractEntities (eventText event)
      in if eventEntities = [] then None
         else
           let eventNormalized = newSet (map normalized eventEntities);
               matched = matchedOf questionNormalized eventNormalized
           in if matched = [] then None
              else
                let score = scoreOf questionNormalized eventNormalized;
                    eventContext = extractSemanticContext (eventText event);
                    compat = areContextsCompatible questionContext eventContext
                in if length matched = 1 \<and> \<not> compat then None
                   else Some \<lparr>eventTicker = event_ticker event,
                              eventTitle = title event,
                              cand_subtitle = (case subtitle event of None \<Rightarrow> [] | Some s \<Rightarrow> s),
                              entityScore = score,
                              matchedEntities = matched,
                              contextCompatible = compat\<rparr>)"

fun preFilterLoop ::
  "string list \<Rightarrow> SemanticContext \<Rightarrow> KalshiEventRow list \<Rightarrow> PreFilterResult list" where
  "preFilterLoop qn qctx [] = []"
| "preFilterLoop qn qctx (event # events) =
     (case candidateOf qn qctx event of
        None \<Rightarrow> preFilterLoop qn qctx events
      | Some r \<Rightarrow> r # preFilterLoop qn qctx events)"

text \<open>
  \<open>results.sort((a, b) => b.entityScore - a.entityScore)\<close>: \<open>Array.prototype.sort\<close>
  is stable, and so is \<open>sort_key\<close>; descending by score is ascending by its negation.
\<close>

definition preFilterEvents :: "string \<Rightarrow> KalshiEventRow list \<Rightarrow> PreFilterResult list" where
  "preFilterEvents question events =
     (let questionEntities = extractEntities question;
          questionContext = extractSemanticContext question
      in if questionEntities = [] then []
         else
           let questionNormalized = newSet (map normalized questionEntities)
           in sort_key (\<lambda>r. - entityScore r)
                (preFilterLoop questionNormalized questionContext events))"

section \<open>Nested markets of an event\<close>

datatype js_error = SyntaxError | TypeError

text \<open>JavaScript truthiness of a parsed JSON value.\<close>

fun truthy :: "json \<Rightarrow> bool" where
  "truthy JNull = False"
| "truthy (JBool b) = b"
| "truthy (JNum n) = (n \<noteq> 0)"
| "truthy (JStr s) = (s \<noteq> [])"
| "truthy (JArr xs) = True"
| "truthy (JObj fs) = True"

text \<open>
  \<open>m.status\<close> and \<open>m.ticker\<close> on a parsed value (\<open>None\<close> is \<open>undefined\<close>):
  reading a property of \<open>null\<close> throws, an object has its own fields, and no other
  JSON value has a property of either name.
\<close>

fun getProp :: "json \<Rightarrow> string \<Rightarrow> js_error + json option" where
  "getProp JNull k = Inl TypeError"
| "getProp (JObj fs) k = Inr (map_of fs k)"
| "getProp v k = Inr None"

text \<open>\<open>markets.find((m) => m.status === "open" || m.status === "active")\<close>\<close>

fun findOpen :: "json list \<Rightarrow> js_error + json option" where
  "findOpen [] = Inr None"
| "findOpen (m # ms) =
     (case getProp m ''status'' of
        Inl err \<Rightarrow> Inl err
      | Inr st \<Rightarrow>
          if st = Some (JStr ''open'') \<or> st = Some (JStr ''active'') then Inr (Some m)
          else findOpen ms)"

text \<open>
  \<open>eventRow?.markets_json ? JSON.parse(eventRow.markets_json) : []\<close>; a missing row, a
  \<open>null\<close> column and the empty string are falsy.
\<close>

definition parseMarkets :: "KalshiEventRow option \<Rightarrow> js_error + json" where
  "parseMarkets eventRow =
     (case eventRow of
        None \<Rightarrow> Inr (JArr [])
      | Some row \<Rightarrow>
          (case markets_json row of
             None \<Rightarrow> Inr (JArr [])
           | Some (NotJSON s) \<Rightarrow> if s = [] then Inr (JArr []) else Inl SyntaxError
           | Some (JSONText v) \<Rightarrow> Inr v))"

text \<open>
  \<open>bestMarket = markets.find(...) || markets[0]\<close>, then
  \<open>bestMarket?.ticker || null\<close> (\<open>None\<close> is \<open>null\<close>). Only an array has
  \<open>find\<close>; calling it on any other parsed value throws.
\<close>

definition bestTicker :: "json \<Rightarrow> js_error + json option" where
  "bestTicker markets =
     (case markets of
        JArr ms \<Rightarrow>
          (case findOpen ms of
             Inl err \<Rightarrow> Inl err
           | Inr found \<Rightarrow>
               let bestMarket = (case found of Some m \<Rightarrow> Some m
                                 | None \<Rightarrow> (case ms of [] \<Rightarrow> None | m0 # _ \<Rightarrow> Some m0))
               in (case bestMarket of
                     None \<Rightarrow> Inr None
                   | Some JNull \<Rightarrow> Inr None
                   | Some m \<Rightarrow>
                       (case getProp m ''ticker'' of
                          Inl err \<Rightarrow> Inl err
                        | Inr None \<Rightarrow> Inr None
                        | Inr (Some t) \<Rightarrow> Inr (if truthy t then Some t else None))))
      | _ \<Rightarrow> Inl TypeError)"

text \<open>
  The three lines that every matching tier repeats: find the event row by its ticker,
  parse its nested markets, pick the market ticker.
\<close>

definition marketTickerOf :: "KalshiEventRow list \<Rightarrow> string \<Rightarrow> js_error + json option" where
  "marketTickerOf kalshiEvents ticker =
     (case parseMarkets (find (\<lambda>e. event_ticker e = ticker) kalshiEvents) of
        Inl err \<Rightarrow> Inl err
      | Inr markets \<Rightarrow> bestTicker markets)"

section \<open>Main matching pipeline\<close>

text \<open>
  The classifier's answer as \<open>matchSingleMarket\<close> reads it. \<open>reasoning\<close> and
  \<open>matchedConcepts\<close> may be absent (the source guards both with \<open>||\<close>).
\<close>

record AIMatchResponse =
  eventIndex :: rat
  ai_confidence :: rat
  ai_reasoning :: "string option"
  matchedConcepts :: "string list option"

record LLMEvent =
  idx :: nat
  llm_title :: string
  llm_subtitle :: string

datatype MatchMethod = entity | ai | none

record MatchResult =
  kalshiEventTicker :: "string option"
  kalshiMarketTicker :: "json option"
  kalshiEventTitle :: "string option"
  similarity :: rat
  confidence :: rat
  matchMethod :: MatchMethod
  mr_matchedEntities :: "string list"
  reasoning :: "string option"

text \<open>
  \<open>callLLMForMatch\<close> is the call of the external service; it is a parameter of the
  model, a function of what it is sent. \<open>matchSingleMarket\<close> returns its outcome (a
  thrown error or the result) and the list of the calls it made of the classifier.
\<close>

type_synonym classifier = "string \<Rightarrow> LLMEvent list \<Rightarrow> AIMatchResponse option"

definition noMatch :: "string \<Rightarrow> MatchResult" where
  "noMatch why =
     \<lparr>kalshiEventTicker = None, kalshiMarketTicker = None, kalshiEventTitle = None,
      similarity = 0, confidence = 0, matchMethod = none, mr_matchedEntities = [],
      reasoning = Some why\<rparr>"

text \<open>\<open>xs[i]\<close> for a number \<open>i\<close>: defined at the integers from 0 below the length.\<close>

definition jsIndex :: "'a list \<Rightarrow> rat \<Rightarrow> 'a option" where
  "jsIndex xs i =
     (if 0 \<le> i \<and> of_int \<lfloor>i\<rfloor> = i \<and> nat \<lfloor>i\<rfloor> < length xs then Some (xs ! nat \<lfloor>i\<rfloor>) else None)"

text \<open>\<open>topN.map((c, idx) => ({ idx, title: c.eventTitle, subtitle: c.subtitle }))\<close>\<close>

definition eventListOf :: "PreFilterResult list \<Rightarrow> LLMEvent list" where
  "eventListOf topN =
     map (\<lambda>(i, c). \<lparr>idx = i, llm_title = eventTitle c, llm_subtitle = cand_subtitle c\<rparr>)
       (enumerate 0 topN)"

text \<open>\<open>!aiResult || aiResult.eventIndex < 0 || aiResult.confidence < 25\<close>\<close>

definition aiFailed :: "AIMatchResponse option \<Rightarrow> bool" where
  "aiFailed aiResult =
     (case aiResult of None \<Rightarrow> True | Some a \<Rightarrow> eventIndex a < 0 \<or> ai_confidence a < 25)"

text \<open>\<open>aiResult?.reasoning || "No confident match found"\<close>\<close>

definition failureReasoning :: "AIMatchResponse option \<Rightarrow> string" where
  "failureReasoning aiResult =
     (case aiResult of
        None \<Rightarrow> ''No confident match found''
      | Some a \<Rightarrow>
          (case ai_reasoning a of
             None \<Rightarrow> ''No confident match found''
           | Some r \<Rightarrow> if r = [] then ''No confident match found'' else r))"

definition strongEntityResult :: "PreFilterResult \<Rightarrow> json option \<Rightarrow> MatchResult" where
  "strongEntityResult topCandidate ticker =
     \<lparr>kalshiEventTicker = Some (eventTicker topCandidate),
      kalshiMarketTicker = ticker,
      kalshiEventTitle = Some (eventTitle topCandidate),
      similarity = min (entityScore topCandidate * (3 / 2)) (95 / 100),
      confidence = of_int (round (min (entityScore topCandidate * 150) 95)),
      matchMethod = entity,
      mr_matchedEntities = matchedEntities topCandidate,
      reasoning = Some (''Strong entity match: '' @ join '', '' (matchedEntities topCandidate))\<rparr>"

definition fallbackResult :: "PreFilterResult \<Rightarrow> json option \<Rightarrow> MatchResult" where
  "fallbackResult topCandidate ticker =
     \<lparr>kalshiEventTicker = Some (eventTicker topCandidate),
      kalshiMarketTicker = ticker,
      kalshiEventTitle = Some (eventTitle topCandidate),
      similarity = entityScore topCandidate,
      confidence = of_int (round (entityScore topCandidate * 100)),
      matchMethod = entity,
      mr_matchedEntities = matchedEntities topCandidate,
      reasoning = Some ''Entity-based fallback (AI unavailable or low confidence)''\<rparr>"

definition aiResultOf :: "PreFilterResult \<Rightarrow> AIMatchResponse \<Rightarrow> json option \<Rightarrow> MatchResult" where
  "aiResultOf matchedCandidate a ticker =
     \<lparr>kalshiEventTicker = Some (eventTicker matchedCandidate),
      kalshiMarketTicker = ticker,
      kalshiEventTitle = Some (eventTitle matchedCandidate),
      similarity = ai_confidence a / 100,
      confidence = ai_confidence a,
      matchMethod = ai,
      mr_matchedEntities =
        (case matchedConcepts a of Some cs \<Rightarrow> cs | None \<Rightarrow> matchedEntities matchedCandidate),
      reasoning = ai_reasoning a\<rparr>"

text \<open>A tier that matched an event: the result once the market ticker is there.\<close>

definition withTicker ::
  "KalshiEventRow list \<Rightarrow> string \<Rightarrow> (json option \<Rightarrow> MatchResult) \<Rightarrow> js_error + MatchResult" where
  "withTicker kalshiEvents ticker mk =
     (case marketTickerOf kalshiEvents ticker of Inl err \<Rightarrow> Inl err | Inr t \<Rightarrow> Inr (mk t))"

text \<open>Step 3 of \<open>matchSingleMarket\<close>, from the classifier's answer on.\<close>

definition classifierTier ::
  "KalshiEventRow list \<Rightarrow> PreFilterResult \<Rightarrow> PreFilterResult list \<Rightarrow> AIMatchResponse option
   \<Rightarrow> js_error + MatchResult" where
  "classifierTier kalshiEvents topCandidate topN aiResult =
     (if aiFailed aiResult then
        if entityScore topCandidate \<ge> 4 / 10 \<and> contextCompatible topCandidate
        then withTicker kalshiEvents (eventTicker topCandidate) (fallbackResult topCandidate)
        else Inr (noMatch (failureReasoning aiResult))
      else
        (case aiResult of
           None \<Rightarrow> Inr (noMatch (failureReasoning aiResult))
         | Some a \<Rightarrow>
             (case jsIndex topN (eventIndex a) of
                None \<Rightarrow> Inr (noMatch ''AI returned out-of-bounds index'')
              | Some matchedCandidate \<Rightarrow>
                  withTicker kalshiEvents (eventTicker matchedCandidate)
                    (aiResultOf matchedCandidate a))))"

definition matchSingleMarket ::
  "classifier \<Rightarrow> string \<Rightarrow> KalshiEventRow list
   \<Rightarrow> (js_error + MatchResult) \<times> (string \<times> LLMEvent list) list" where
  "matchSingleMarket callLLMForMatch question kalshiEvents =
     (let candidates = preFilterEvents question kalshiEvents
      in case candidates of
           [] \<Rightarrow> (Inr (noMatch ''No entity overlap found''), [])
         | topCandidate # _ \<Rightarrow>
             if length (matchedEntities topCandidate) \<ge> 3 \<and> contextCompatible topCandidate
             then (withTicker kalshiEvents (eventTicker topCandidate)
                     (strongEntityResult topCandidate), [])
             else
               let topN = take 30 candidates;
                   eventList = eventListOf topN;
                   aiResult = callLLMForMatch question eventList
               in (classifierTier kalshiEvents topCandidate topN aiResult,
                   [(question, eventList)]))"

section \<open>Match cache\<close>

text \<open>
  The table \<open>market_matches\<close> with its \<open>AUTOINCREMENT\<close> counter, and the keys of
  the table \<open>markets\<close>, which \<open>market_matches.polymarket_id\<close> references
  (\<open>foreign_keys = ON\<close>). Times are milliseconds since the epoch, read from an explicit
  clock; one reading serves a whole call.
\<close>

record MarketMatchRow =
  row_id :: nat
  polymarket_id :: string
  polymarket_question :: string
  kalshi_event_ticker :: "string option"
  kalshi_market_ticker :: "string option"
  kalshi_event_title :: "string option"
  row_similarity :: rat
  row_confidence :: rat
  match_method :: string
  matched_entities :: "string option"
  row_reasoning :: "string option"
  matched_at :: string
  expires_at :: string

record Database =
  market_ids :: "string list"
  market_matches :: "MarketMatchRow list"
  market_matches_seq :: nat

text \<open>
  The argument \<open>match\<close> of \<open>upsertMarketMatch\<close>; \<open>ttlHours\<close> is a whole,
  non-negative number of hours when it is given (the callers pass 24).
\<close>

record MatchInput =
  polymarketId :: string
  polymarketQuestion :: string
  m_kalshiEventTicker :: "string option"
  m_kalshiMarketTicker :: "string option"
  m_kalshiEventTitle :: "string option"
  m_similarity :: rat
  m_confidence :: rat
  m_matchMethod :: string
  m_matchedEntities :: "string list"
  m_reasoning :: "string option"
  ttlHours :: "nat option"

datatype db_error = RangeError | ForeignKeyConstraint | NotNullConstraint

subsection \<open>Calendar and the two timestamp formats\<close>

definition isLeap :: "nat \<Rightarrow> bool" where
  "isLeap y = (y mod 4 = 0 \<and> (y mod 100 \<noteq> 0 \<or> y mod 400 = 0))"

definition daysInYear :: "nat \<Rightarrow> nat" where
  "daysInYear y = (if isLeap y then 366 else 365)"

definition monthLengths :: "nat \<Rightarrow> nat list" where
  "monthLengths y = [31, if isLeap y then 29 else 28, 31, 30, 31, 30, 31, 31, 30, 31, 30, 31]"

text \<open>The year of a day counted from the first day of year \<open>y\<close>, and the day in it.\<close>

function yearOf :: "nat \<Rightarrow> nat \<Rightarrow> nat \<times> nat" where
  "yearOf y d = (if d < daysInYear y then (y, d) else yearOf (y + 1) (d - daysInYear y))"
  by pat_completeness auto
termination
  by (relation "measure snd") (auto simp: daysInYear_def)

declare yearOf.simps [simp del]

fun monthOf :: "nat list \<Rightarrow> nat \<Rightarrow> nat \<Rightarrow> nat \<times> nat" where
  "monthOf [] m d = (m, d)"
| "monthOf (l # ls) m d = (if d < l then (m, d) else monthOf ls (m + 1) (d - l))"

text \<open>Year, month and day of the month (from 1) of a day counted from 1970-01-01.\<close>

definition civil :: "nat \<Rightarrow> nat \<times> nat \<times> nat" where
  "civil days =
     (let (y, doy) = yearOf 1970 days;
          (m, dom) = monthOf (monthLengths y) 1 doy
      in (y, m, dom + 1))"

definition digitChar :: "nat \<Rightarrow> char" where
  "digitChar n = char_of (48 + n mod 10)"

text \<open>Zero-padded decimal digits; every number padded below fits its width.\<close>

definition pad2 :: "nat \<Rightarrow> string" where
  "pad2 n = [digitChar (n div 10), digitChar n]"

definition pad3 :: "nat \<Rightarrow> string" where
  "pad3 n = digitChar (n div 100) # pad2 n"

definition pad4 :: "nat \<Rightarrow> string" where
  "pad4 n = pad2 (n div 100) @ pad2 n"

definition pad6 :: "nat \<Rightarrow> string" where
  "pad6 n = pad2 (n div 10000) @ pad4 n"

definition dateText :: "nat \<times> nat \<times> nat \<Rightarrow> string" where
  "dateText ymd = (case ymd of (y, m, d) \<Rightarrow> pad4 y @ ''-'' @ pad2 m @ ''-'' @ pad2 d)"

definition clockText :: "nat \<Rightarrow> string" where
  "clockText msOfDay =
     pad2 (msOfDay div 3600000) @ '':'' @ pad2 (msOfDay div 60000 mod 60) @ '':''
     @ pad2 (msOfDay div 1000 mod 60)"

text \<open>
  \<open>new Date(t).toISOString()\<close>: \<open>YYYY-MM-DDTHH:mm:ss.sssZ\<close>, with a sign and six
  digits for a year beyond 9999, and a \<open>RangeError\<close> beyond the greatest time value.
\<close>

definition toISOString :: "nat \<Rightarrow> db_error + string" where
  "toISOString t =
     (if t > 8640000000000000 then Inl RangeError
      else
        let (y, m, d) = civil (t div 86400000);
            date = (if y \<le> 9999 then dateText (y, m, d)
                    else ''+'' @ pad6 y @ ''-'' @ pad2 m @ ''-'' @ pad2 d)
        in Inr (date @ ''T'' @ clockText (t mod 86400000) @ ''.'' @ pad3 (t mod 1000) @ ''Z''))"

text \<open>
  SQLite's \<open>datetime('now')\<close>: \<open>YYYY-MM-DD HH:MM:SS\<close>, and \<open>NULL\<close> beyond the
  year 9999.
\<close>

definition sqlDatetime :: "nat \<Rightarrow> string option" where
  "sqlDatetime t =
     (let (y, m, d) = civil (t div 86400000)
      in if y \<le> 9999 then Some (dateText (y, m, d) @ '' '' @ clockText (t mod 86400000))
         else None)"

subsection \<open>\<open>JSON.stringify\<close> of an array of strings\<close>

definition hexDigit :: "nat \<Rightarrow> char" where
  "hexDigit n = (if n < 10 then char_of (48 + n) else char_of (87 + n))"

definition escapeChar :: "char \<Rightarrow> string" where
  "escapeChar c =
     (let n = (of_char c :: nat)
      in if n = 34 then [char_of (92 :: nat), c]
         else if n = 92 then [c, c]
         else if n = 8 then [char_of (92 :: nat), CHR ''b'']
         else if n = 9 then [char_of (92 :: nat), CHR ''t'']
         else if n = 10 then [char_of (92 :: nat), CHR ''n'']
         else if n = 12 then [char_of (92 :: nat), CHR ''f'']
         else if n = 13 then [char_of (92 :: nat), CHR ''r'']
         else if n < 32
           then [char_of (92 :: nat), CHR ''u'', CHR ''0'', CHR ''0'', hexDigit (n div 16),
                 hexDigit (n mod 16)]
         else [c])"

definition quoteString :: "string \<Rightarrow> string" where
  "quoteString s = [char_of (34 :: nat)] @ concat (map escapeChar s) @ [char_of (34 :: nat)]"

definition stringifyStrings :: "string list \<Rightarrow> string" where
  "stringifyStrings xs = ''['' @ join '','' (map quoteString xs) @ '']''"

subsection \<open>Market match CRUD\<close>

text \<open>The next \<open>AUTOINCREMENT\<close> key: above the counter and above every key in use.\<close>

definition nextRowId :: "Database \<Rightarrow> nat" where
  "nextRowId database =
     Suc (fold max (map row_id (market_matches database)) (market_matches_seq database))"

text \<open>\<open>match.ttlHours || 24\<close>\<close>

definition ttlOrDefault :: "MatchInput \<Rightarrow> nat" where
  "ttlOrDefault m = (case ttlHours m of None \<Rightarrow> 24 | Some h \<Rightarrow> if h = 0 then 24 else h)"

text \<open>
  \<open>upsertMarketMatch\<close> runs \<open>DELETE\<close>, computes \<open>expiresAt\<close> and runs
  \<open>INSERT\<close>, outside any transaction: an error thrown after the \<open>DELETE\<close> leaves
  the rows deleted. The result is the thrown error, if any, and the database afterwards.
\<close>

definition upsertMarketMatch :: "Database \<Rightarrow> nat \<Rightarrow> MatchInput \<Rightarrow> db_error option \<times> Database" where
  "upsertMarketMatch database now m =
     (let deleted = database\<lparr>market_matches :=
                      filter (\<lambda>r. polymarket_id r \<noteq> polymarketId m) (market_matches database)\<rparr>
      in case toISOString (now + ttlOrDefault m * 60 * 60 * 1000) of
           Inl err \<Rightarrow> (Some err, deleted)
         | Inr expiresAt \<Rightarrow>
             if polymarketId m \<notin> set (market_ids deleted)
             then (Some ForeignKeyConstraint, deleted)
             else
               (case sqlDatetime now of
                  None \<Rightarrow> (Some NotNullConstraint, deleted)
                | Some matchedAt \<Rightarrow>
                    (None,
                     deleted\<lparr>market_matches := market_matches deleted @
                        [\<lparr>row_id = nextRowId deleted,
                          polymarket_id = polymarketId m,
                          polymarket_question = polymarketQuestion m,
                          kalshi_event_ticker = m_kalshiEventTicker m,
                          kalshi_market_ticker = m_kalshiMarketTicker m,
                          kalshi_event_title = m_kalshiEventTitle m,
                          row_similarity = m_similarity m,
                          row_confidence = m_confidence m,
                          match_method = m_matchMethod m,
                          matched_entities = Some (stringifyStrings (m_matchedEntities m)),
                          row_reasoning = m_reasoning m,
                          matched_at = matchedAt,
                          expires_at = expiresAt\<rparr>],
                        market_matches_seq := nextRowId deleted\<rparr>)))"

text \<open>
  \<open>SELECT * ... WHERE polymarket_id = ? AND expires_at > datetime('now') ORDER BY
  matched_at DESC LIMIT 1\<close>: both comparisons are comparisons of texts, byte by byte.
  The row returned has the greatest \<open>matched_at\<close> of the selected rows; among
  several with that value it is the first in table order.
\<close>

fun latestRow :: "MarketMatchRow \<Rightarrow> MarketMatchRow list \<Rightarrow> MarketMatchRow" where
  "latestRow best [] = best"
| "latestRow best (r # rs) = latestRow (if matched_at best < matched_at r then r else best) rs"

definition getMarketMatch :: "Database \<Rightarrow> nat \<Rightarrow> string \<Rightarrow> MarketMatchRow option" where
  "getMarketMatch database now pid =
     (case sqlDatetime now of
        None \<Rightarrow> None
      | Some nowText \<Rightarrow>
          (case filter (\<lambda>r. polymarket_id r = pid \<and> expires_at r > nowText)
                  (market_matches database) of
             [] \<Rightarrow> None
           | row # rows \<Rightarrow> Some (latestRow row rows)))"

section \<open>Notions and example data for the properties\<close>

text \<open>
  The keyword count of a category in the words of the specification, written without the
  functions of the code: the number of the category's keywords that occur as substrings
  of the lowercased text. \<open>lowercased\<close> replaces every upper-case letter by the
  lower-case letter at the same place of the alphabet; \<open>sublist kw s\<close> says that
  \<open>s = ps @ kw @ ss\<close> for some \<open>ps\<close> and \<open>ss\<close>.
\<close>

definition upperCaseLetters :: string where
  "upperCaseLetters =
     ''ABCDEFGHIJKLMNOPQRSTUVWXYZ''
     @ [CHR 0xC0, CHR 0xC1, CHR 0xC2, CHR 0xC3, CHR 0xC4, CHR 0xC5, CHR 0xC6, CHR 0xC7,
        CHR 0xC8, CHR 0xC9, CHR 0xCA, CHR 0xCB, CHR 0xCC, CHR 0xCD, CHR 0xCE, CHR 0xCF,
        CHR 0xD0, CHR 0xD1, CHR 0xD2, CHR 0xD3, CHR 0xD4, CHR 0xD5, CHR 0xD6,
        CHR 0xD8, CHR 0xD9, CHR 0xDA, CHR 0xDB, CHR 0xDC, CHR 0xDD, CHR 0xDE]"

definition lowerCaseLetters :: string where
  "lowerCaseLetters =
     ''abcdefghijklmnopqrstuvwxyz''
     @ [CHR 0xE0, CHR 0xE1, CHR 0xE2, CHR 0xE3, CHR 0xE4, CHR 0xE5, CHR 0xE6, CHR 0xE7,
        CHR 0xE8, CHR 0xE9, CHR 0xEA, CHR 0xEB, CHR 0xEC, CHR 0xED, CHR 0xEE, CHR 0xEF,
        CHR 0xF0, CHR 0xF1, CHR 0xF2, CHR 0xF3, CHR 0xF4, CHR 0xF5, CHR 0xF6,
        CHR 0xF8, CHR 0xF9, CHR 0xFA, CHR 0xFB, CHR 0xFC, CHR 0xFD, CHR 0xFE]"

definition lowercased :: "string \<Rightarrow> string" where
  "lowercased s =
     map (\<lambda>c. case map_of (zip upperCaseLetters lowerCaseLetters) c of Some l \<Rightarrow> l | None \<Rightarrow> c) s"

definition keywordsOf :: "SemanticContext \<Rightarrow> string list" where
  "keywordsOf ctx = (case map_of CONTEXT_KEYWORDS ctx of Some kws \<Rightarrow> kws | None \<Rightarrow> [])"

definition contextScore :: "string \<Rightarrow> SemanticContext \<Rightarrow> nat" where
  "contextScore text ctx =
     length (filter (\<lambda>kw. sublist kw (lowercased text)) (keywordsOf ctx))"

definition keySet :: "string \<Rightarrow> string list" where
  "keySet text = newSet (map normalized (extractEntities text))"

definition survives :: "string \<Rightarrow> KalshiEventRow list \<Rightarrow> KalshiEventRow \<Rightarrow> bool" where
  "survives question events event =
     (\<exists>r\<in>set (preFilterEvents question events).
        candidateOf (keySet question) (extractSemanticContext question) event = Some r)"

definition event_K1 :: KalshiEventRow where
  "event_K1 = \<lparr>event_ticker = ''K1'', title = ''Who will win the 2028 presidential election?'',
                subtitle = Some ''Trump vs others'', markets_json = None\<rparr>"

definition event_K2 :: KalshiEventRow where
  "event_K2 = \<lparr>event_ticker = ''K2'', title = ''Trump and the Fed'', subtitle = None,
                markets_json = None\<rparr>"

definition event_K4 :: KalshiEventRow where
  "event_K4 = \<lparr>event_ticker = ''K4'', title = ''Trump higher vs lower'', subtitle = None,
                markets_json = None\<rparr>"

definition cand_K2 :: PreFilterResult where
  "cand_K2 = \<lparr>eventTicker = ''K2'', eventTitle = ''Trump and the Fed'', cand_subtitle = [],
               entityScore = 4 / 5, matchedEntities = [''trump'', ''fed''],
               contextCompatible = True\<rparr>"

definition classifierUnavailable :: classifier where
  "classifierUnavailable question eventList = None"

text \<open>Atoms that consume a character whenever they match.\<close>

fun consumes :: "atom \<Rightarrow> bool" where
  "consumes (Lit c) = True"
| "consumes Sp = True"
| "consumes SpPlus = True"
| "consumes (OptLit c) = False"
| "consumes Wb = False"

definition minLen :: "atom list \<Rightarrow> nat" where
  "minLen as = length (filter consumes as)"

definition event_K5 :: KalshiEventRow where
  "event_K5 = \<lparr>event_ticker = ''K5'', title = ''Trump, the Fed and DOGE tariffs'', subtitle = None,
                markets_json = Some (NotJSON ''{'')\<rparr>"

definition event_K7 :: KalshiEventRow where
  "event_K7 = \<lparr>event_ticker = ''K7'', title = ''Trump and the Fed'', subtitle = None,
                markets_json = Some (NotJSON ''{'')\<rparr>"

definition event_K8 :: KalshiEventRow where
  "event_K8 = \<lparr>event_ticker = ''K8'', title = ''Trump Iran higher vs lower'', subtitle = None,
                markets_json = None\<rparr>"

definition markets_K9 :: "json list" where
  "markets_K9 = [JObj [(''ticker'', JStr ''K9-A''), (''status'', JStr ''closed'')],
                 JObj [(''ticker'', JStr ''K9-B''), (''status'', JStr ''active'')]]"

definition markets_K6 :: "json list" where
  "markets_K6 = [JNull, JObj [(''ticker'', JStr ''K6-B''), (''status'', JStr ''open'')]]"

definition event_K6 :: KalshiEventRow where
  "event_K6 = \<lparr>event_ticker = ''K6'',
                title = ''Trump, the Fed, DOGE, tariffs, inflation, recession and bitcoin'',
                subtitle = None,
                markets_json = Some (JSONText (JArr markets_K6))\<rparr>"

definition event_K9 :: KalshiEventRow where
  "event_K9 = \<lparr>event_ticker = ''K9'',
                title = ''Trump, the Fed, DOGE, tariffs, inflation, recession and bitcoin'',
                subtitle = None,
                markets_json = Some (JSONText (JArr markets_K9))\<rparr>"

definition classifierReturns :: "AIMatchResponse \<Rightarrow> classifier" where
  "classifierReturns a question eventList = Some a"

definition ai_far_index :: AIMatchResponse where
  "ai_far_index = \<lparr>eventIndex = 5, ai_confidence = 90, ai_reasoning = Some ''Same election'',
                    matchedConcepts = Some [''trump'']\<rparr>"

definition ai_no_match :: AIMatchResponse where
  "ai_no_match = \<lparr>eventIndex = - 1, ai_confidence = 0, ai_reasoning = Some ''Different outcomes'',
                   matchedConcepts = Some []\<rparr>"

definition ai_silent :: AIMatchResponse where
  "ai_silent = \<lparr>eventIndex = 0, ai_confidence = 10, ai_reasoning = Some [],
                 matchedConcepts = None\<rparr>"

definition ai_overconfident :: AIMatchResponse where
  "ai_overconfident = \<lparr>eventIndex = 0, ai_confidence = 150, ai_reasoning = Some ''Same election'',
                        matchedConcepts = Some [''trump'']\<rparr>"

definition ai_accept :: AIMatchResponse where
  "ai_accept = \<lparr>eventIndex = 0, ai_confidence = 90, ai_reasoning = Some ''Same election'',
                 matchedConcepts = None\<rparr>"

definition cand_K9 :: PreFilterResult where
  "cand_K9 = \<lparr>eventTicker = ''K9'',
               eventTitle = ''Trump, the Fed, DOGE, tariffs, inflation, recession and bitcoin'',
               cand_subtitle = [], entityScore = 3 / 5,
               matchedEntities = [''trump'', ''fed'', ''doge''], contextCompatible = True\<rparr>"

definition cand_K6 :: PreFilterResult where
  "cand_K6 = \<lparr>eventTicker = ''K6'',
               eventTitle = ''Trump, the Fed, DOGE, tariffs, inflation, recession and bitcoin'',
               cand_subtitle = [], entityScore = 3 / 5,
               matchedEntities = [''trump'', ''fed'', ''doge''], contextCompatible = True\<rparr>"

definition cand_K5 :: PreFilterResult where
  "cand_K5 = \<lparr>eventTicker = ''K5'', eventTitle = ''Trump, the Fed and DOGE tariffs'',
               cand_subtitle = [], entityScore = 6 / 7,
               matchedEntities = [''trump'', ''fed'', ''doge''], contextCompatible = True\<rparr>"

definition cand_K7 :: PreFilterResult where
  "cand_K7 = \<lparr>eventTicker = ''K7'', eventTitle = ''Trump and the Fed'', cand_subtitle = [],
               entityScore = 2 / 3, matchedEntities = [''trump''], contextCompatible = True\<rparr>"

definition cand_K8 :: PreFilterResult where
  "cand_K8 = \<lparr>eventTicker = ''K8'', eventTitle = ''Trump Iran higher vs lower'',
               cand_subtitle = [], entityScore = 1, matchedEntities = [''trump'', ''iran''],
               contextCompatible = False\<rparr>"

definition cand_K1 :: PreFilterResult where
  "cand_K1 = \<lparr>eventTicker = ''K1'', eventTitle = ''Who will win the 2028 presidential election?'',
               cand_subtitle = ''Trump vs others'', entityScore = 1,
               matchedEntities = [''trump''], contextCompatible = True\<rparr>"

definition cand_K2_election :: PreFilterResult where
  "cand_K2_election = \<lparr>eventTicker = ''K2'', eventTitle = ''Trump and the Fed'',
               cand_subtitle = [], entityScore = 2 / 3, matchedEntities = [''trump''],
               contextCompatible = True\<rparr>"

text \<open>
  The nested-market choice in the words of the specification: an entry with status
  \<open>open\<close> or \<open>active\<close> is preferred, else the first entry; the ticker is that
  entry's \<open>ticker\<close> when it is truthy, else \<open>null\<close>.
\<close>

definition isOpenMarket :: "json \<Rightarrow> bool" where
  "isOpenMarket m =
     (case m of
        JObj fs \<Rightarrow> map_of fs ''status'' = Some (JStr ''open'')
                   \<or> map_of fs ''status'' = Some (JStr ''active'')
      | _ \<Rightarrow> False)"

definition tickerOrNull :: "json \<Rightarrow> json option" where
  "tickerOrNull m =
     (case m of
        JObj fs \<Rightarrow> (case map_of fs ''ticker'' of
                      Some t \<Rightarrow> if truthy t then Some t else None
                    | None \<Rightarrow> None)
      | _ \<Rightarrow> None)"

definition preferredTicker :: "json list \<Rightarrow> json option" where
  "preferredTicker ms =
     (case find isOpenMarket ms of
        Some m \<Rightarrow> tickerOrNull m
      | None \<Rightarrow> (case ms of [] \<Rightarrow> None | m0 # _ \<Rightarrow> tickerOrNull m0))"

text \<open>
  A \<open>null\<close> entry comes before the first entry with status \<open>open\<close> or
  \<open>active\<close>, or anywhere when no entry has that status.
\<close>

definition nullBeforeOpen :: "json list \<Rightarrow> bool" where
  "nullBeforeOpen ms = (JNull \<in> set (takeWhile (\<lambda>m. \<not> isOpenMarket m) ms))"

text \<open>
  The tiers of \<open>matchSingleMarket\<close> that match a target event, and the candidate each
  of them matches, in the words of the specification. The strong entity match (at least
  three matched entities, compatible contexts) matches the top candidate. Otherwise the
  classifier is asked about the first 30 candidates: when it gives no answer, a negative
  index or a confidence below 25, the entity fallback matches the top candidate if its
  score is at least 0.4 and the contexts are compatible; when it gives an index of the
  list with a confidence of at least 25, the AI accept matches the candidate at that index.
\<close>

definition matchedEvent ::
  "classifier \<Rightarrow> string \<Rightarrow> KalshiEventRow list \<Rightarrow> PreFilterResult \<Rightarrow> bool" where
  "matchedEvent callLLMForMatch question kalshiEvents c =
     (case preFilterEvents question kalshiEvents of
        [] \<Rightarrow> False
      | topCandidate # rest \<Rightarrow>
          if 3 \<le> length (matchedEntities topCandidate) \<and> contextCompatible topCandidate
          then c = topCandidate
          else
            let topN = take 30 (topCandidate # rest);
                fallback = (4 / 10 \<le> entityScore topCandidate
                            \<and> contextCompatible topCandidate \<and> c = topCandidate)
            in case callLLMForMatch question (eventListOf topN) of
                 None \<Rightarrow> fallback
               | Some a \<Rightarrow>
                   if eventIndex a < 0 \<or> ai_confidence a < 25 then fallback
                   else (\<exists>i<length topN. eventIndex a = of_nat i \<and> c = topN ! i))"

definition result_overconfident :: MatchResult where
  "result_overconfident =
     \<lparr>kalshiEventTicker = Some ''K1'', kalshiMarketTicker = None,
      kalshiEventTitle = Some ''Who will win the 2028 presidential election?'',
      similarity = 3 / 2, confidence = 150, matchMethod = ai,
      mr_matchedEntities = [''trump''], reasoning = Some ''Same election''\<rparr>"

definition result_accept :: MatchResult where
  "result_accept =
     \<lparr>kalshiEventTicker = Some ''K1'', kalshiMarketTicker = None,
      kalshiEventTitle = Some ''Who will win the 2028 presidential election?'',
      similarity = 9 / 10, confidence = 90, matchMethod = ai,
      mr_matchedEntities = [''trump''], reasoning = Some ''Same election''\<rparr>"

definition utcYear :: "nat \<Rightarrow> nat" where
  "utcYear t = fst (civil (t div 86400000))"

text \<open>Dates in calendar order.\<close>

definition dateLe :: "nat \<times> nat \<times> nat \<Rightarrow> nat \<times> nat \<times> nat \<Rightarrow> bool" where
  "dateLe a b =
     (case a of (y1, m1, d1) \<Rightarrow> case b of (y2, m2, d2) \<Rightarrow>
        y1 < y2 \<or> (y1 = y2 \<and> (m1 < m2 \<or> (m1 = m2 \<and> d1 \<le> d2))))"

definition db_example :: Database where
  "db_example =
     \<lparr>market_ids = [''m1'', ''m2''],
      market_matches =
        [\<lparr>row_id = 1, polymarket_id = ''m1'', polymarket_question = ''Will Trump win?'',
          kalshi_event_ticker = None, kalshi_market_ticker = None, kalshi_event_title = None,
          row_similarity = 0, row_confidence = 0, match_method = ''none'',
          matched_entities = Some ''[]'', row_reasoning = Some ''No entity overlap found'',
          matched_at = ''2026-11-01 00:00:00'', expires_at = ''2026-11-02T00:00:00.000Z''\<rparr>],
      market_matches_seq = 1\<rparr>"

definition db_no_markets :: Database where
  "db_no_markets = \<lparr>market_ids = [], market_matches = [], market_matches_seq = 0\<rparr>"

definition match_example :: MatchInput where
  "match_example =
     \<lparr>polymarketId = ''m1'', polymarketQuestion = ''Will Trump win?'',
      m_kalshiEventTicker = Some ''K1'', m_kalshiMarketTicker = None,
      m_kalshiEventTitle = Some ''Who will win the 2028 presidential election?'',
      m_similarity = 9 / 10, m_confidence = 90, m_matchMethod = ''ai'',
      m_matchedEntities = [''trump''], m_reasoning = Some ''Same election'',
      ttlHours = Some 24\<rparr>"

definition match_forever :: MatchInput where
  "match_forever = match_example\<lparr>ttlHours := Some 100000000\<rparr>"

definition match_beyond :: MatchInput where
  "match_beyond = match_example\<lparr>ttlHours := Some 3000000000\<rparr>"

text \<open>The greatest time value of a \<open>Date\<close>.\<close>

definition maxTime :: nat where
  "maxTime = 8640000000000000"

text \<open>The row that \<open>INSERT\<close> writes.\<close>

definition insertedRow :: "nat \<Rightarrow> MatchInput \<Rightarrow> string \<Rightarrow> string \<Rightarrow> MarketMatchRow" where
  "insertedRow rid m matchedAt expiresAt =
     \<lparr>row_id = rid,
      polymarket_id = polymarketId m,
      polymarket_question = polymarketQuestion m,
      kalshi_event_ticker = m_kalshiEventTicker m,
      kalshi_market_ticker = m_kalshiMarketTicker m,
      kalshi_event_title = m_kalshiEventTitle m,
      row_similarity = m_similarity m,
      row_confidence = m_confidence m,
      match_method = m_matchMethod m,
      matched_entities = Some (stringifyStrings (m_matchedEntities m)),
      row_reasoning = m_reasoning m,
      matched_at = matchedAt,
      expires_at = expiresAt\<rparr>"

section \<open>Properties\<close>

lemma isWord_code [code]:
  "isWord (Char b0 b1 b2 b3 b4 b5 b6 b7) =
     (\<not> b7 \<and> (if b6 then letterBits b0 b1 b2 b3 b4 \<or> (\<not> b5 \<and> b4 \<and> b3 \<and> b2 \<and> b1 \<and> b0)
               else b5 \<and> b4 \<and> (\<not> b3 \<or> (\<not> b2 \<and> \<not> b1))))"
  by (cases b0; cases b1; cases b2; cases b3; cases b4; cases b5; cases b6; cases b7;
      simp add: isWord_def letterBits_def)

lemma isSpace_code [code]:
  "isSpace (Char b0 b1 b2 b3 b4 b5 b6 b7) =
     (\<not> b6 \<and> \<not> b4 \<and>
      (if b5 then \<not> b3 \<and> \<not> b2 \<and> \<not> b1 \<and> \<not> b0
       else \<not> b7 \<and> b3 \<and> (b0 \<or> b1 \<or> b2) \<and> \<not> (b1 \<and> b2)))"
  by (cases b0; cases b1; cases b2; cases b3; cases b4; cases b5; cases b6; cases b7;
      simp add: isSpace_def)

lemma toLowerChar_code [code]:
  "toLowerChar (Char b0 b1 b2 b3 b4 b5 b6 b7) =
     (if b6 \<and> \<not> b5 \<and> (if b7 then \<not> (b4 \<and> b2 \<and> b1 \<and> b0) else letterBits b0 b1 b2 b3 b4)
      then Char b0 b1 b2 b3 b4 True b6 b7 else Char b0 b1 b2 b3 b4 b5 b6 b7)"
  by (cases b0; cases b1; cases b2; cases b3; cases b4; cases b5; cases b6; cases b7;
      simp add: toLowerChar_def letterBits_def char_of_def bit_Suc_0_iff)

lemma context_keys:
  "map fst CONTEXT_KEYWORDS = [leadership, action, price, timing, outcome, comparison, unknown]"
  by (simp add: CONTEXT_KEYWORDS_def)

lemma first_max_entries:
  assumes "foldl (contextStep lower) (b, n) es = (b', n')"
  shows "if \<forall>e\<in>set es. fst e = unknown \<or> keywordCount lower (snd e) \<le> n
         then b' = b \<and> n' = n
         else b' \<noteq> unknown \<and> n < n'
              \<and> (\<exists>kws. (b', kws) \<in> set es \<and> n' = keywordCount lower kws)
              \<and> (\<forall>e\<in>set es. fst e \<noteq> unknown \<longrightarrow> keywordCount lower (snd e) \<le> n')
              \<and> (\<forall>e\<in>set (takeWhile (\<lambda>e. fst e \<noteq> b') es).
                    fst e \<noteq> unknown \<longrightarrow> keywordCount lower (snd e) < n')"
  using assms
proof (induction es arbitrary: b n)
  case Nil
  then show ?case by simp
next
  case (Cons e es)
  let ?k = "keywordCount lower (snd e)"
  show ?case
  proof (cases "fst e \<noteq> unknown \<and> ?k > n")
    case True
    then have step: "contextStep lower (b, n) e = (fst e, ?k)"
      by (simp add: contextStep_def Let_def)
    with Cons.prems have f: "foldl (contextStep lower) (fst e, ?k) es = (b', n')"
      by simp
    from Cons.IH[OF f] True show ?thesis
      by (cases e) (auto split: if_splits)
  next
    case False
    then have step: "contextStep lower (b, n) e = (b, n)"
      by (auto simp add: contextStep_def Let_def)
    with Cons.prems have f: "foldl (contextStep lower) (b, n) es = (b', n')"
      by simp
    from Cons.IH[OF f] False show ?thesis
      by (cases e) (auto split: if_splits)
  qed
qed

lemma before_best_known:
  assumes "c \<in> set (takeWhile (\<lambda>c. c \<noteq> b)
                      [leadership, action, price, timing, outcome, comparison, unknown])"
    and "b \<noteq> unknown"
  shows "c \<noteq> unknown"
  using assms by (cases b) auto

text \<open>\<open>includes\<close> and \<open>toLowerCase\<close> are the notions of the specification.\<close>

lemma includesStr_sublist: "includesStr hay needle \<longleftrightarrow> sublist needle hay"
  by (induction hay) (simp_all add: sublist_Cons_right)

lemma toLowerChar_lowercased:
  "toLowerChar (Char b0 b1 b2 b3 b4 b5 b6 b7) =
     (case map_of (zip upperCaseLetters lowerCaseLetters) (Char b0 b1 b2 b3 b4 b5 b6 b7) of
        Some l \<Rightarrow> l | None \<Rightarrow> Char b0 b1 b2 b3 b4 b5 b6 b7)"
  unfolding toLowerChar_code
  by (cases b0; cases b1; cases b2; cases b3; cases b4; cases b5; cases b6; cases b7;
      simp add: letterBits_def upperCaseLetters_def lowerCaseLetters_def)

lemma toLowerCase_lowercased: "toLowerCase s = lowercased s"
proof -
  have "toLowerChar c =
          (case map_of (zip upperCaseLetters lowerCaseLetters) c of Some l \<Rightarrow> l | None \<Rightarrow> c)" for c
    by (cases c) (simp only: toLowerChar_lowercased)
  then show ?thesis
    by (simp add: toLowerCase_def lowercased_def)
qed

lemma keywordCount_occurrences:
  "keywordCount (toLowerCase text) kws
     = length (filter (\<lambda>kw. sublist kw (lowercased text)) kws)"
  by (simp add: keywordCount_def includesStr_sublist toLowerCase_lowercased)

lemma context_score_entry:
  assumes "(c, kws) \<in> set CONTEXT_KEYWORDS"
  shows "contextScore text c = keywordCount (toLowerCase text) kws"
proof -
  have "distinct (map fst CONTEXT_KEYWORDS)"
    by (simp add: context_keys)
  then have "map_of CONTEXT_KEYWORDS c = Some kws"
    using assms by (rule map_of_is_SomeI)
  then show ?thesis
    by (simp add: contextScore_def keywordsOf_def keywordCount_occurrences)
qed

lemma context_entry_exists: "\<exists>kws. (c, kws) \<in> set CONTEXT_KEYWORDS"
proof -
  have "c \<in> set (map fst CONTEXT_KEYWORDS)"
    unfolding context_keys by (cases c) simp_all
  then show ?thesis by auto
qed

text \<open>
  C7. For every text the classifier returns one context. The count of a category is the
  number of its keywords that occur as substrings of the lowercased text
  (\<open>contextScore\<close>). The context is \<open>unknown\<close> exactly when every other category
  counts no keyword; otherwise it is a category whose count is positive and the highest of
  all, and every category enumerated before it counts strictly less (the first maximum
  wins).
\<close>

theorem semantic_context_first_max:
  "(extractSemanticContext text = unknown
      \<longleftrightarrow> (\<forall>c. c \<noteq> unknown \<longrightarrow> contextScore text c = 0))
   \<and> (extractSemanticContext text \<noteq> unknown \<longrightarrow>
        0 < contextScore text (extractSemanticContext text)
        \<and> (\<forall>c. c \<noteq> unknown \<longrightarrow>
              contextScore text c \<le> contextScore text (extractSemanticContext text))
        \<and> (\<forall>c\<in>set (takeWhile (\<lambda>c. c \<noteq> extractSemanticContext text) (map fst CONTEXT_KEYWORDS)).
              contextScore text c < contextScore text (extractSemanticContext text)))"
proof -
  define lower where "lower = toLowerCase text"
  define es where "es = CONTEXT_KEYWORDS"
  obtain b' n' where f: "foldl (contextStep lower) (unknown, 0) es = (b', n')"
    by (cases "foldl (contextStep lower) (unknown, 0) es") auto
  have r: "extractSemanticContext text = b'"
    unfolding extractSemanticContext_def lower_def [symmetric] es_def [symmetric] f by simp
  have sc: "keywordCount lower kws = contextScore text c" if "(c, kws) \<in> set es" for c kws
    using context_score_entry [of c kws "text"] that unfolding lower_def es_def by simp
  have all: "\<exists>kws. (c, kws) \<in> set es" for c
    unfolding es_def by (rule context_entry_exists)
  have keys: "map fst es = [leadership, action, price, timing, outcome, comparison, unknown]"
    unfolding es_def by (rule context_keys)
  note fm = first_max_entries [OF f]
  show ?thesis
  proof (cases "\<forall>e\<in>set es. fst e = unknown \<or> keywordCount lower (snd e) \<le> 0")
    case True
    from fm [unfolded if_P [OF True]] have b: "b' = unknown" by simp
    have "contextScore text c = 0" if "c \<noteq> unknown" for c
    proof -
      obtain kws where m: "(c, kws) \<in> set es"
        using all by blast
      with True that have "keywordCount lower kws \<le> 0" by fastforce
      with sc [OF m] show ?thesis by simp
    qed
    with b r show ?thesis by simp
  next
    case False
    note fm' = fm [unfolded if_not_P [OF False]]
    from fm' have nu: "b' \<noteq> unknown" and pos: "0 < n'" by blast+
    from fm' obtain kws where m: "(b', kws) \<in> set es" and n': "n' = keywordCount lower kws"
      by blast
    from fm' have ub: "\<And>e. e \<in> set es \<Longrightarrow> fst e \<noteq> unknown \<Longrightarrow> keywordCount lower (snd e) \<le> n'"
      by blast
    from fm' have first: "\<And>e. e \<in> set (takeWhile (\<lambda>e. fst e \<noteq> b') es) \<Longrightarrow> fst e \<noteq> unknown
         \<Longrightarrow> keywordCount lower (snd e) < n'"
      by blast
    from sc [OF m] n' have n'_eq: "n' = contextScore text b'" by simp
    have le: "contextScore text c \<le> contextScore text b'" if "c \<noteq> unknown" for c
    proof -
      obtain kws' where m': "(c, kws') \<in> set es"
        using all by blast
      from ub [OF m'] that have "keywordCount lower kws' \<le> n'" by simp
      with sc [OF m'] n'_eq show ?thesis by simp
    qed
    have lt: "contextScore text c < contextScore text b'"
      if c: "c \<in> set (takeWhile (\<lambda>c. c \<noteq> b') (map fst es))" for c
    proof -
      from c obtain e where e: "e \<in> set (takeWhile (\<lambda>e. fst e \<noteq> b') es)" and ce: "c = fst e"
        by (auto simp: takeWhile_map comp_def)
      have mem: "e \<in> set es"
        using e by (rule set_takeWhileD [THEN conjunct1])
      have "c \<noteq> unknown"
        using c nu unfolding keys by (rule before_best_known)
      with first [OF e] ce have "keywordCount lower (snd e) < n'" by simp
      moreover have "keywordCount lower (snd e) = contextScore text (fst e)"
        using sc [of "fst e" "snd e"] mem by simp
      ultimately show ?thesis using ce n'_eq by simp
    qed
    have p: "0 < contextScore text b'" using pos n'_eq by simp
    have nz: "\<not> (\<forall>c. c \<noteq> unknown \<longrightarrow> contextScore text c = 0)"
    proof
      assume "\<forall>c. c \<noteq> unknown \<longrightarrow> contextScore text c = 0"
      from this [rule_format, OF nu] p show False by simp
    qed
    have A: "(b' = unknown \<longleftrightarrow> (\<forall>c. c \<noteq> unknown \<longrightarrow> contextScore text c = 0))"
      using nu nz by simp
    have B: "0 < contextScore text b'
        \<and> (\<forall>c. c \<noteq> unknown \<longrightarrow> contextScore text c \<le> contextScore text b')
        \<and> (\<forall>c\<in>set (takeWhile (\<lambda>c. c \<noteq> b') (map fst CONTEXT_KEYWORDS)).
              contextScore text c < contextScore text b')"
      using p le lt unfolding es_def by (intro conjI allI impI ballI)
    show ?thesis
      unfolding r by (rule conjI [OF A impI [OF B]])
  qed
qed

lemma ctx_trump_election:
  "extractSemanticContext ''Will Donald Trump win the 2028 election?'' = leadership"
  by code_simp

lemma score_trump_election:
  "contextScore ''Will Donald Trump win the 2028 election?'' leadership = 2"
  "contextScore ''Will Donald Trump win the 2028 election?'' outcome = 1"
  by code_simp+

lemma ctx_trump_strike: "extractSemanticContext ''Will Trump strike Iran?'' = action"
  by code_simp

lemma score_trump_strike:
  "contextScore ''Will Trump strike Iran?'' leadership = 0"
  "contextScore ''Will Trump strike Iran?'' action = 1"
  "contextScore ''Will Trump strike Iran?'' outcome = 1"
  by code_simp+

lemma ctx_bitcoin: "extractSemanticContext ''Bitcoin'' = unknown"
  by code_simp

theorem semantic_context_first_max_witness:
  "extractSemanticContext ''Will Donald Trump win the 2028 election?'' = leadership
   \<and> contextScore ''Will Donald Trump win the 2028 election?'' leadership = 2
   \<and> contextScore ''Will Donald Trump win the 2028 election?'' outcome
       \<le> contextScore ''Will Donald Trump win the 2028 election?'' leadership
   \<and> extractSemanticContext ''Will Trump strike Iran?'' = action
   \<and> leadership \<in> set (takeWhile (\<lambda>c. c \<noteq> action) (map fst CONTEXT_KEYWORDS))
   \<and> contextScore ''Will Trump strike Iran?'' leadership
       < contextScore ''Will Trump strike Iran?'' action
   \<and> contextScore ''Will Trump strike Iran?'' outcome = 1
   \<and> contextScore ''Will Trump strike Iran?'' action = 1
   \<and> extractSemanticContext ''Bitcoin'' = unknown
   \<and> contextScore ''Bitcoin'' price = 0"
  using semantic_context_first_max [of "''Will Donald Trump win the 2028 election?''"]
    semantic_context_first_max [of "''Will Trump strike Iran?''"]
    semantic_context_first_max [of "''Bitcoin''"]
  by (simp add: ctx_trump_election ctx_trump_strike ctx_bitcoin score_trump_election
      score_trump_strike context_keys)

lemma foldl_setAdd_set: "set (foldl setAdd s xs) = set s \<union> set xs"
  by (induction xs arbitrary: s) (auto simp: setAdd_def)

lemma foldl_setAdd_distinct: "distinct s \<Longrightarrow> distinct (foldl setAdd s xs)"
  by (induction xs arbitrary: s) (auto simp: setAdd_def)

lemma set_newSet: "set (newSet xs) = set xs"
  by (simp add: newSet_def foldl_setAdd_set)

lemma distinct_newSet: "distinct (newSet xs)"
  by (simp add: newSet_def foldl_setAdd_distinct)

lemma newSet_Nil_iff: "newSet xs = [] \<longleftrightarrow> xs = []"
  using set_newSet [of xs] by (metis set_empty)

lemma keySet_Nil_iff: "keySet text = [] \<longleftrightarrow> extractEntities text = []"
  by (simp add: keySet_def newSet_Nil_iff)

lemma distinct_keySet: "distinct (keySet text)"
  by (simp add: keySet_def distinct_newSet)

lemma matchedOf_Nil_left: "matchedOf [] en = []"
  by (simp add: matchedOf_def)

lemma matchedOf_Nil_right: "matchedOf qn [] = []"
  by (simp add: matchedOf_def)

lemma set_matchedOf: "set (matchedOf qn en) = set qn \<inter> set en"
  by (auto simp: matchedOf_def)

lemma distinct_matchedOf: "distinct qn \<Longrightarrow> distinct (matchedOf qn en)"
  by (simp add: matchedOf_def)

lemma length_matchedOf: "distinct qn \<Longrightarrow> length (matchedOf qn en) = card (set qn \<inter> set en)"
  using distinct_card [OF distinct_matchedOf, of qn en] by (simp add: set_matchedOf)

lemma length_matchedOf_sym:
  "distinct qn \<Longrightarrow> distinct en \<Longrightarrow> length (matchedOf qn en) = length (matchedOf en qn)"
  by (simp add: length_matchedOf Int_commute)

lemma scoreOf_sym: "distinct qn \<Longrightarrow> distinct en \<Longrightarrow> scoreOf qn en = scoreOf en qn"
  by (simp add: scoreOf_def length_matchedOf_sym add.commute)

lemma length_matchedOf_le:
  assumes "distinct qn" "distinct en"
  shows "length (matchedOf qn en) \<le> length qn" "length (matchedOf qn en) \<le> length en"
proof -
  show "length (matchedOf qn en) \<le> length qn"
    by (simp add: matchedOf_def)
  have "length (matchedOf qn en) = length (matchedOf en qn)"
    using assms by (rule length_matchedOf_sym)
  also have "\<dots> \<le> length en"
    by (simp add: matchedOf_def)
  finally show "length (matchedOf qn en) \<le> length en" .
qed

lemma scoreOf_bounds:
  assumes "distinct qn" "distinct en" "matchedOf qn en \<noteq> []"
  shows "0 < scoreOf qn en" "scoreOf qn en \<le> 1"
proof -
  let ?m = "length (matchedOf qn en)"
  have m: "0 < ?m" using assms(3) by simp
  have le: "?m \<le> length qn" "?m \<le> length en"
    using length_matchedOf_le [OF assms(1,2)] by simp_all
  have d: "0 < length qn + length en" using m le(1) by linarith
  have m': "(0::rat) < of_nat (?m * 2)"
    using m by simp
  have d': "(0::rat) < of_nat (length qn + length en)"
    using d by (simp only: of_nat_0_less_iff)
  show "0 < scoreOf qn en"
    unfolding scoreOf_def using m' d' by (rule divide_pos_pos)
  have "?m * 2 \<le> length qn + length en" using le by simp
  then have "(of_nat (?m * 2) :: rat) \<le> of_nat (length qn + length en)"
    by (simp only: of_nat_le_iff)
  then show "scoreOf qn en \<le> 1"
    unfolding scoreOf_def by (simp only: divide_le_eq_1_pos [OF d'])
qed

text \<open>What the loop body makes of an event that shares a key with the question.\<close>

lemma candidateOf_shared:
  assumes "matchedOf qn (keySet (eventText event)) \<noteq> []"
  shows "candidateOf qn qctx event =
     (if length (matchedOf qn (keySet (eventText event))) = 1
          \<and> \<not> areContextsCompatible qctx (extractSemanticContext (eventText event))
      then None
      else Some \<lparr>eventTicker = event_ticker event,
                 eventTitle = title event,
                 cand_subtitle = (case subtitle event of None \<Rightarrow> [] | Some s \<Rightarrow> s),
                 entityScore = scoreOf qn (keySet (eventText event)),
                 matchedEntities = matchedOf qn (keySet (eventText event)),
                 contextCompatible =
                   areContextsCompatible qctx (extractSemanticContext (eventText event))\<rparr>)"
proof -
  have "keySet (eventText event) \<noteq> []"
    using assms matchedOf_Nil_right by metis
  then have "extractEntities (eventText event) \<noteq> []"
    by (simp add: keySet_Nil_iff)
  then show ?thesis
    using assms by (simp add: candidateOf_def Let_def keySet_def)
qed

lemma candidateOf_Some:
  assumes "candidateOf qn qctx event = Some r"
  shows "matchedOf qn (keySet (eventText event)) \<noteq> []
    \<and> entityScore r = scoreOf qn (keySet (eventText event))
    \<and> matchedEntities r = matchedOf qn (keySet (eventText event))
    \<and> contextCompatible r = areContextsCompatible qctx (extractSemanticContext (eventText event))
    \<and> eventTicker r = event_ticker event \<and> eventTitle r = title event"
  using assms by (auto simp: candidateOf_def Let_def keySet_def split: if_splits)

lemma set_preFilterLoop:
  "set (preFilterLoop qn qctx events) = {r. \<exists>e\<in>set events. candidateOf qn qctx e = Some r}"
  by (induction events) (auto split: option.splits)

lemma set_preFilterEvents:
  assumes "extractEntities question \<noteq> []"
  shows "set (preFilterEvents question events) =
     {r. \<exists>e\<in>set events. candidateOf (keySet question) (extractSemanticContext question) e = Some r}"
  using assms by (simp add: preFilterEvents_def Let_def set_preFilterLoop keySet_def)

lemma preFilterEvents_no_entities:
  "extractEntities question = [] \<Longrightarrow> preFilterEvents question events = []"
  by (simp add: preFilterEvents_def)

lemma shared_has_entities:
  assumes "matchedOf (keySet question) en \<noteq> []"
  shows "extractEntities question \<noteq> []"
proof -
  have "keySet question \<noteq> []"
    using assms matchedOf_Nil_left by metis
  then show ?thesis by (simp add: keySet_Nil_iff)
qed

lemma survives_iff:
  assumes "event \<in> set events" and "extractEntities question \<noteq> []"
  shows "survives question events event
     \<longleftrightarrow> candidateOf (keySet question) (extractSemanticContext question) event \<noteq> None"
  using assms by (auto simp: survives_def set_preFilterEvents)

text \<open>
  C5. A candidate that shares at least one normalized entity with the question is
  rejected for its context only when exactly one entity matched: with exactly one matched
  entity it survives the pre-filter if and only if its context is compatible with the
  question's, and with two or more it survives whatever the contexts are.
\<close>

theorem prefilter_context_gate:
  assumes "event \<in> set events"
    and "matchedOf (keySet question) (keySet (eventText event)) \<noteq> []"
  shows "(length (matchedOf (keySet question) (keySet (eventText event))) = 1 \<longrightarrow>
            (survives question events event
               \<longleftrightarrow> areContextsCompatible (extractSemanticContext question)
                     (extractSemanticContext (eventText event))))
       \<and> (2 \<le> length (matchedOf (keySet question) (keySet (eventText event))) \<longrightarrow>
            survives question events event)"
proof -
  have ents: "extractEntities question \<noteq> []"
    using assms(2) by (rule shared_has_entities)
  note s = survives_iff [OF assms(1) ents]
  note c = candidateOf_shared [OF assms(2), of "extractSemanticContext question"]
  show ?thesis
    unfolding s c by simp
qed

lemma keys_strike: "keySet ''Will Trump strike Iran?'' = [''trump'', ''iran'']"
  by code_simp

lemma keys_K4: "keySet (eventText event_K4) = [''trump'']"
  by code_simp

lemma ctx_K4: "extractSemanticContext (eventText event_K4) = comparison"
  by code_simp

lemma keys_doge: "keySet ''Trump, the Fed and DOGE'' = [''trump'', ''fed'', ''doge'']"
  by code_simp

lemma keys_K2: "keySet (eventText event_K2) = [''trump'', ''fed'']"
  by code_simp

theorem prefilter_context_gate_witness:
  "event_K4 \<in> set [event_K4]
   \<and> matchedOf (keySet ''Will Trump strike Iran?'') (keySet (eventText event_K4)) = [''trump'']
   \<and> \<not> areContextsCompatible (extractSemanticContext ''Will Trump strike Iran?'')
          (extractSemanticContext (eventText event_K4))
   \<and> \<not> survives ''Will Trump strike Iran?'' [event_K4] event_K4
   \<and> matchedOf (keySet ''Trump, the Fed and DOGE'') (keySet (eventText event_K2)) = [''trump'', ''fed'']
   \<and> survives ''Trump, the Fed and DOGE'' [event_K4, event_K2] event_K2"
  using prefilter_context_gate [of event_K4 "[event_K4]" "''Will Trump strike Iran?''"]
    prefilter_context_gate [of event_K2 "[event_K4, event_K2]" "''Trump, the Fed and DOGE''"]
  by (simp add: keys_strike keys_K4 ctx_trump_strike ctx_K4 keys_doge keys_K2 matchedOf_def
      areContextsCompatible_def)

text \<open>
  C6. For every candidate that the pre-filter returns, the entity score is
  \<open>2 * |matched| / (|source keys| + |candidate keys|)\<close> over the deduplicated key
  sets, where the matched entities are the keys the two sets share; it lies in
  \<open>(0, 1]\<close>, and the score computed with the two key sets in swapped roles is the same.
\<close>

theorem entity_score_dice:
  assumes "r \<in> set (preFilterEvents question events)"
  shows "\<exists>event\<in>set events.
           matchedEntities r = matchedOf (keySet question) (keySet (eventText event))
         \<and> set (matchedEntities r) = set (keySet question) \<inter> set (keySet (eventText event))
         \<and> distinct (keySet question) \<and> distinct (keySet (eventText event))
         \<and> entityScore r = of_nat (2 * length (matchedEntities r))
                            / of_nat (length (keySet question) + length (keySet (eventText event)))
         \<and> 0 < entityScore r \<and> entityScore r \<le> 1
         \<and> scoreOf (keySet (eventText event)) (keySet question) = entityScore r"
proof -
  have ents: "extractEntities question \<noteq> []"
    using assms preFilterEvents_no_entities [of question events] by auto
  from assms obtain event where ev: "event \<in> set events"
    and c: "candidateOf (keySet question) (extractSemanticContext question) event = Some r"
    unfolding set_preFilterEvents [OF ents] by blast
  let ?qn = "keySet question" and ?en = "keySet (eventText event)"
  note cs = candidateOf_Some [OF c]
  have ne: "matchedOf ?qn ?en \<noteq> []" and sc: "entityScore r = scoreOf ?qn ?en"
    and me: "matchedEntities r = matchedOf ?qn ?en"
    using cs by simp_all
  have dq: "distinct ?qn" and de: "distinct ?en"
    by (rule distinct_keySet)+
  have "set (matchedEntities r) = set ?qn \<inter> set ?en"
    unfolding me by (rule set_matchedOf)
  moreover have "entityScore r = of_nat (2 * length (matchedEntities r))
                            / of_nat (length ?qn + length ?en)"
    unfolding sc me scoreOf_def by (simp add: mult.commute)
  moreover have "0 < entityScore r" "entityScore r \<le> 1"
    unfolding sc using scoreOf_bounds [OF dq de ne] by simp_all
  moreover have "scoreOf ?en ?qn = entityScore r"
    unfolding sc using scoreOf_sym [OF dq de] by simp
  ultimately show ?thesis
    using ev me dq de by blast
qed

lemma prefilter_doge_K2: "preFilterEvents ''Trump, the Fed and DOGE'' [event_K2] = [cand_K2]"
  by code_simp

theorem entity_score_dice_witness:
  "cand_K2 \<in> set (preFilterEvents ''Trump, the Fed and DOGE'' [event_K2])
   \<and> entityScore cand_K2 = 4 / 5
   \<and> 0 < entityScore cand_K2 \<and> entityScore cand_K2 \<le> 1
   \<and> scoreOf (keySet (eventText event_K2)) (keySet ''Trump, the Fed and DOGE'')
       = entityScore cand_K2"
  using entity_score_dice [of cand_K2 "''Trump, the Fed and DOGE''" "[event_K2]"]
  by (simp add: prefilter_doge_K2 cand_K2_def)

text \<open>
  C8. When no entity is extracted from the question, the pre-filter returns the empty
  list and \<open>matchSingleMarket\<close> returns the \<open>none\<close> result with confidence 0,
  similarity 0, no target identifiers and the reasoning \<open>No entity overlap found\<close>,
  without calling the classifier.
\<close>

theorem no_entities_no_match:
  assumes "extractEntities question = []"
  shows "preFilterEvents question events = []
     \<and> matchSingleMarket callLLMForMatch question events =
         (Inr \<lparr>kalshiEventTicker = None, kalshiMarketTicker = None, kalshiEventTitle = None,
               similarity = 0, confidence = 0, matchMethod = none, mr_matchedEntities = [],
               reasoning = Some ''No entity overlap found''\<rparr>, [])"
  using preFilterEvents_no_entities [OF assms, of events]
  by (simp add: matchSingleMarket_def noMatch_def)

lemma no_entities_rain: "extractEntities ''Will it rain tomorrow?'' = []"
  by code_simp

theorem no_entities_no_match_witness:
  "extractEntities ''Will it rain tomorrow?'' = []
   \<and> preFilterEvents ''Will it rain tomorrow?'' [event_K1] = []
   \<and> fst (matchSingleMarket classifierUnavailable ''Will it rain tomorrow?'' [event_K1])
       = Inr (noMatch ''No entity overlap found'')
   \<and> snd (matchSingleMarket classifierUnavailable ''Will it rain tomorrow?'' [event_K1]) = []"
  using no_entities_no_match [OF no_entities_rain, of "[event_K1]" classifierUnavailable]
  by (simp add: no_entities_rain noMatch_def)

text \<open>Every match of an atom sequence is at least as long as its consuming atoms.\<close>

lemma matchAtoms_minLen:
  "k \<in> set (matchAtoms as pw rest n) \<Longrightarrow> n + minLen as \<le> k"
proof (induction as pw rest n rule: matchAtoms.induct)
  case (7 as pw d ds n)
  then show ?case
    by (auto simp: minLen_def split: if_splits)
next
  case (9 c as pw d ds n)
  then show ?case
    by (auto simp: minLen_def split: if_splits)
qed (auto simp: minLen_def split: if_splits)

lemma ENTITY_PATTERNS_minLen:
  "list_all (\<lambda>g. list_all (list_all (\<lambda>a. 0 < minLen a)) (snd g)) ENTITY_PATTERNS"
  by code_simp

text \<open>No pattern of the table matches the empty string.\<close>

lemma ENTITY_PATTERNS_consume:
  assumes "g \<in> set ENTITY_PATTERNS" and "p \<in> set (snd g)"
  shows "firstMatch p pw rest \<noteq> Some 0"
proof
  assume fm: "firstMatch p pw rest = Some 0"
  then obtain ns where "concat (map (\<lambda>a. matchAtoms a pw rest 0) p) = 0 # ns"
    by (auto simp: firstMatch_def split: list.splits)
  then have "0 \<in> set (concat (map (\<lambda>a. matchAtoms a pw rest 0) p))"
    by (simp only: list.set_intros)
  then obtain a where a: "a \<in> set p" and k: "0 \<in> set (matchAtoms a pw rest 0)"
    by auto
  from ENTITY_PATTERNS_minLen assms a have "0 < minLen a"
    by (auto simp: list_all_iff)
  moreover from matchAtoms_minLen [OF k] have "minLen a = 0"
    by simp
  ultimately show False
    by simp
qed

lemma matchSingleMarket_strong:
  assumes "preFilterEvents question kalshiEvents = topCandidate # rest"
    and "3 \<le> length (matchedEntities topCandidate)" and "contextCompatible topCandidate"
  shows "matchSingleMarket callLLMForMatch question kalshiEvents =
     (withTicker kalshiEvents (eventTicker topCandidate) (strongEntityResult topCandidate), [])"
  using assms by (simp add: matchSingleMarket_def)

lemma matchSingleMarket_classifier:
  assumes "preFilterEvents question kalshiEvents = topCandidate # rest"
    and "\<not> (3 \<le> length (matchedEntities topCandidate) \<and> contextCompatible topCandidate)"
  shows "matchSingleMarket callLLMForMatch question kalshiEvents =
     (classifierTier kalshiEvents topCandidate (take 30 (topCandidate # rest))
        (callLLMForMatch question (eventListOf (take 30 (topCandidate # rest)))),
      [(question, eventListOf (take 30 (topCandidate # rest)))])"
  using assms by (simp add: matchSingleMarket_def Let_def)

lemma withTicker_Inl:
  "marketTickerOf kalshiEvents ticker = Inl err \<Longrightarrow> withTicker kalshiEvents ticker mk = Inl err"
  by (simp add: withTicker_def)

lemma withTicker_Inr:
  "marketTickerOf kalshiEvents ticker = Inr t \<Longrightarrow> withTicker kalshiEvents ticker mk = Inr (mk t)"
  by (simp add: withTicker_def)

text \<open>
  C1 (amended). When the pre-filter output is not empty and its top candidate has at least
  three matched entities and is context-compatible, \<open>matchSingleMarket\<close> makes no
  call of the classifier; and unless reading the nested markets of the top candidate's
  event row throws (\<open>JSON.parse\<close> or the market lookup; the error is then the
  outcome), it returns the result with method \<open>entity\<close>, similarity
  \<open>min(entityScore * 1.5, 0.95)\<close> and confidence
  \<open>round(min(entityScore * 150, 95))\<close> of that candidate.
\<close>

theorem strong_entity_tier:
  assumes "preFilterEvents question kalshiEvents = topCandidate # rest"
    and "3 \<le> length (matchedEntities topCandidate)" and "contextCompatible topCandidate"
  shows "snd (matchSingleMarket callLLMForMatch question kalshiEvents) = []
     \<and> (\<forall>err. marketTickerOf kalshiEvents (eventTicker topCandidate) = Inl err \<longrightarrow>
           fst (matchSingleMarket callLLMForMatch question kalshiEvents) = Inl err)
     \<and> (\<forall>t. marketTickerOf kalshiEvents (eventTicker topCandidate) = Inr t \<longrightarrow>
           fst (matchSingleMarket callLLMForMatch question kalshiEvents) =
             Inr \<lparr>kalshiEventTicker = Some (eventTicker topCandidate),
                  kalshiMarketTicker = t,
                  kalshiEventTitle = Some (eventTitle topCandidate),
                  similarity = min (entityScore topCandidate * (3 / 2)) (95 / 100),
                  confidence = of_int (round (min (entityScore topCandidate * 150) 95)),
                  matchMethod = entity,
                  mr_matchedEntities = matchedEntities topCandidate,
                  reasoning = Some (''Strong entity match: ''
                                    @ join '', '' (matchedEntities topCandidate))\<rparr>)"
  unfolding matchSingleMarket_strong [OF assms]
  by (simp add: withTicker_def strongEntityResult_def)

lemma aiFailed_iff:
  "aiFailed aiResult \<longleftrightarrow>
     aiResult = None \<or> (\<exists>a. aiResult = Some a \<and> (eventIndex a < 0 \<or> ai_confidence a < 25))"
  by (cases aiResult) (simp_all add: aiFailed_def)

text \<open>
  C2 (amended). When the classifier tier is reached and the classifier's answer is
  \<open>null\<close>, or has a negative index, or a confidence below 25: if the top candidate
  has \<open>entityScore \<ge> 0.4\<close> and is context-compatible, the outcome is the
  entity fallback on the top candidate, unless reading the nested markets of its event row
  throws (the error is then the outcome); otherwise the outcome is the \<open>none\<close>
  result with confidence 0 and similarity 0, whose reasoning is the classifier's stated
  reasoning when the classifier answered and stated one that is not empty, and
  \<open>No confident match found\<close> when it did not answer, or stated none or the empty
  text.
\<close>

theorem classifier_failure_fallback:
  assumes "preFilterEvents question kalshiEvents = topCandidate # rest"
    and "\<not> (3 \<le> length (matchedEntities topCandidate) \<and> contextCompatible topCandidate)"
    and "callLLMForMatch question (eventListOf (take 30 (topCandidate # rest))) = aiResult"
    and "aiResult = None \<or> (\<exists>a. aiResult = Some a \<and> (eventIndex a < 0 \<or> ai_confidence a < 25))"
  shows "(4 / 10 \<le> entityScore topCandidate \<and> contextCompatible topCandidate \<longrightarrow>
            (\<forall>err. marketTickerOf kalshiEvents (eventTicker topCandidate) = Inl err \<longrightarrow>
               fst (matchSingleMarket callLLMForMatch question kalshiEvents) = Inl err)
          \<and> (\<forall>t. marketTickerOf kalshiEvents (eventTicker topCandidate) = Inr t \<longrightarrow>
               fst (matchSingleMarket callLLMForMatch question kalshiEvents) =
                 Inr \<lparr>kalshiEventTicker = Some (eventTicker topCandidate),
                      kalshiMarketTicker = t,
                      kalshiEventTitle = Some (eventTitle topCandidate),
                      similarity = entityScore topCandidate,
                      confidence = of_int (round (entityScore topCandidate * 100)),
                      matchMethod = entity,
                      mr_matchedEntities = matchedEntities topCandidate,
                      reasoning =
                        Some ''Entity-based fallback (AI unavailable or low confidence)''\<rparr>))
       \<and> (\<not> (4 / 10 \<le> entityScore topCandidate \<and> contextCompatible topCandidate) \<longrightarrow>
            (\<exists>why.
               fst (matchSingleMarket callLLMForMatch question kalshiEvents) =
                 Inr \<lparr>kalshiEventTicker = None, kalshiMarketTicker = None,
                      kalshiEventTitle = None, similarity = 0, confidence = 0,
                      matchMethod = none, mr_matchedEntities = [], reasoning = Some why\<rparr>
               \<and> (\<forall>a stated. aiResult = Some a \<and> ai_reasoning a = Some stated \<and> stated \<noteq> []
                      \<longrightarrow> why = stated)
               \<and> (aiResult = None
                    \<or> (\<exists>a. aiResult = Some a
                           \<and> (ai_reasoning a = None \<or> ai_reasoning a = Some []))
                      \<longrightarrow> why = ''No confident match found'')))"
proof -
  have f: "aiFailed aiResult"
    using assms(4) by (simp add: aiFailed_iff)
  have why: "(\<forall>a stated. aiResult = Some a \<and> ai_reasoning a = Some stated \<and> stated \<noteq> []
                \<longrightarrow> failureReasoning aiResult = stated)
             \<and> (aiResult = None
                  \<or> (\<exists>a. aiResult = Some a
                         \<and> (ai_reasoning a = None \<or> ai_reasoning a = Some []))
                    \<longrightarrow> failureReasoning aiResult = ''No confident match found'')"
    by (auto simp: failureReasoning_def)
  have out: "fst (matchSingleMarket callLLMForMatch question kalshiEvents) =
               Inr \<lparr>kalshiEventTicker = None, kalshiMarketTicker = None,
                    kalshiEventTitle = None, similarity = 0, confidence = 0,
                    matchMethod = none, mr_matchedEntities = [],
                    reasoning = Some (failureReasoning aiResult)\<rparr>"
    if "\<not> (4 / 10 \<le> entityScore topCandidate \<and> contextCompatible topCandidate)"
    unfolding matchSingleMarket_classifier [OF assms(1,2)] assms(3)
    using f that by (auto simp: classifierTier_def noMatch_def)
  have fb: "(\<forall>err. marketTickerOf kalshiEvents (eventTicker topCandidate) = Inl err \<longrightarrow>
               fst (matchSingleMarket callLLMForMatch question kalshiEvents) = Inl err)
          \<and> (\<forall>t. marketTickerOf kalshiEvents (eventTicker topCandidate) = Inr t \<longrightarrow>
               fst (matchSingleMarket callLLMForMatch question kalshiEvents) =
                 Inr \<lparr>kalshiEventTicker = Some (eventTicker topCandidate),
                      kalshiMarketTicker = t,
                      kalshiEventTitle = Some (eventTitle topCandidate),
                      similarity = entityScore topCandidate,
                      confidence = of_int (round (entityScore topCandidate * 100)),
                      matchMethod = entity,
                      mr_matchedEntities = matchedEntities topCandidate,
                      reasoning =
                        Some ''Entity-based fallback (AI unavailable or low confidence)''\<rparr>)"
    if "4 / 10 \<le> entityScore topCandidate \<and> contextCompatible topCandidate"
    unfolding matchSingleMarket_classifier [OF assms(1,2)] assms(3)
    using f that by (auto simp: classifierTier_def withTicker_def fallbackResult_def)
  show ?thesis
    using fb out why by blast
qed

text \<open>
  C4. When the classifier tier is reached and the classifier answers with an index that
  is at least 0, a confidence of at least 25, and the index is not below the length of the
  candidate list that was sent (at most 30 candidates), \<open>matchSingleMarket\<close> does not
  throw: it returns the \<open>none\<close> result with no target identifiers, similarity 0,
  confidence 0 and the reasoning \<open>AI returned out-of-bounds index\<close>.
\<close>

theorem out_of_bounds_index:
  assumes "preFilterEvents question kalshiEvents = topCandidate # rest"
    and "\<not> (3 \<le> length (matchedEntities topCandidate) \<and> contextCompatible topCandidate)"
    and "callLLMForMatch question (eventListOf (take 30 (topCandidate # rest))) = Some a"
    and "0 \<le> eventIndex a" and "25 \<le> ai_confidence a"
    and "of_nat (length (eventListOf (take 30 (topCandidate # rest)))) \<le> eventIndex a"
  shows "matchSingleMarket callLLMForMatch question kalshiEvents =
           (Inr \<lparr>kalshiEventTicker = None, kalshiMarketTicker = None, kalshiEventTitle = None,
                 similarity = 0, confidence = 0, matchMethod = none, mr_matchedEntities = [],
                 reasoning = Some ''AI returned out-of-bounds index''\<rparr>,
            [(question, eventListOf (take 30 (topCandidate # rest)))])
       \<and> length (eventListOf (take 30 (topCandidate # rest))) \<le> 30"
proof -
  define topN where "topN = take 30 (topCandidate # rest)"
  have len: "length (eventListOf topN) = length topN"
    by (simp add: eventListOf_def)
  have le30: "length topN \<le> 30"
    unfolding topN_def by simp
  have nf: "\<not> aiFailed (Some a)"
    using assms(4,5) by (simp add: aiFailed_def)
  have big: "rat_of_nat (length topN) \<le> eventIndex a"
    using assms(6) unfolding topN_def [symmetric] len .
  have "\<not> nat \<lfloor>eventIndex a\<rfloor> < length topN" if int: "of_int \<lfloor>eventIndex a\<rfloor> = eventIndex a"
  proof -
    have "rat_of_nat (length topN) \<le> of_int \<lfloor>eventIndex a\<rfloor>"
      using big unfolding int .
    then have "rat_of_int (int (length topN)) \<le> of_int \<lfloor>eventIndex a\<rfloor>"
      by (simp only: of_int_of_nat_eq)
    then have "int (length topN) \<le> \<lfloor>eventIndex a\<rfloor>"
      by (simp only: of_int_le_iff)
    then show ?thesis by linarith
  qed
  then have oob: "jsIndex topN (eventIndex a) = None"
    by (auto simp: jsIndex_def)
  have "classifierTier kalshiEvents topCandidate topN (Some a)
          = Inr (noMatch ''AI returned out-of-bounds index'')"
    using nf oob by (simp add: classifierTier_def)
  moreover have "callLLMForMatch question (eventListOf topN) = Some a"
    using assms(3) unfolding topN_def .
  ultimately show ?thesis
    unfolding matchSingleMarket_classifier [OF assms(1,2)] topN_def [symmetric]
    using le30 by (simp add: noMatch_def len)
qed

lemma prefilter_doge_K9: "preFilterEvents ''Trump, the Fed and DOGE'' [event_K9] = [cand_K9]"
  by code_simp

lemma prefilter_doge_K5: "preFilterEvents ''Trump, the Fed and DOGE'' [event_K5] = [cand_K5]"
  by code_simp

lemma prefilter_election_K2:
  "preFilterEvents ''Will Donald Trump win the 2028 election?'' [event_K2] = [cand_K2_election]"
  by code_simp

lemma prefilter_election_K7:
  "preFilterEvents ''Will Donald Trump win the 2028 election?'' [event_K7] = [cand_K7]"
  by code_simp

lemma prefilter_strike_K8: "preFilterEvents ''Will Trump strike Iran?'' [event_K8] = [cand_K8]"
  by code_simp

lemma prefilter_election_K1:
  "preFilterEvents ''Will Donald Trump win the 2028 election?'' [event_K1] = [cand_K1]"
  by code_simp

lemma ticker_K9: "marketTickerOf [event_K9] ''K9'' = Inr (Some (JStr ''K9-B''))"
  by code_simp

lemma ticker_K5: "marketTickerOf [event_K5] ''K5'' = Inl SyntaxError"
  by code_simp

lemma ticker_K7: "marketTickerOf [event_K7] ''K7'' = Inl SyntaxError"
  by code_simp

lemma ticker_K2: "marketTickerOf [event_K2] ''K2'' = Inr None"
  by code_simp

lemma ticker_K1: "marketTickerOf [event_K1] ''K1'' = Inr None"
  by code_simp

theorem strong_entity_tier_witness:
  "preFilterEvents ''Trump, the Fed and DOGE'' [event_K9] = [cand_K9]
   \<and> 3 \<le> length (matchedEntities cand_K9) \<and> contextCompatible cand_K9
   \<and> snd (matchSingleMarket classifierUnavailable ''Trump, the Fed and DOGE'' [event_K9]) = []
   \<and> fst (matchSingleMarket classifierUnavailable ''Trump, the Fed and DOGE'' [event_K9]) =
        Inr \<lparr>kalshiEventTicker = Some ''K9'', kalshiMarketTicker = Some (JStr ''K9-B''),
             kalshiEventTitle =
               Some ''Trump, the Fed, DOGE, tariffs, inflation, recession and bitcoin'',
             similarity = 9 / 10, confidence = 90, matchMethod = entity,
             mr_matchedEntities = [''trump'', ''fed'', ''doge''],
             reasoning = Some ''Strong entity match: trump, fed, doge''\<rparr>"
  using strong_entity_tier [OF prefilter_doge_K9, of classifierUnavailable]
  by (simp add: prefilter_doge_K9 cand_K9_def ticker_K9)

theorem strong_entity_tier_counterexample:
  "preFilterEvents ''Trump, the Fed and DOGE'' [event_K5] = [cand_K5]
   \<and> 3 \<le> length (matchedEntities cand_K5) \<and> contextCompatible cand_K5
   \<and> fst (matchSingleMarket classifierUnavailable ''Trump, the Fed and DOGE'' [event_K5])
       = Inl SyntaxError"
proof -
  have s: "3 \<le> length (matchedEntities cand_K5)" and c: "contextCompatible cand_K5"
    by (simp_all add: cand_K5_def)
  have e: "eventTicker cand_K5 = ''K5''"
    by (simp add: cand_K5_def)
  show ?thesis
    using s c
    by (simp add: matchSingleMarket_strong [OF prefilter_doge_K5 s c] prefilter_doge_K5
        withTicker_def e ticker_K5)
qed

theorem classifier_failure_fallback_witness:
  "preFilterEvents ''Will Donald Trump win the 2028 election?'' [event_K2] = [cand_K2_election]
   \<and> length (matchedEntities cand_K2_election) = 1
   \<and> classifierUnavailable ''Will Donald Trump win the 2028 election?''
        (eventListOf (take 30 [cand_K2_election])) = None
   \<and> 4 / 10 \<le> entityScore cand_K2_election \<and> contextCompatible cand_K2_election
   \<and> fst (matchSingleMarket classifierUnavailable ''Will Donald Trump win the 2028 election?''
             [event_K2]) =
        Inr \<lparr>kalshiEventTicker = Some ''K2'', kalshiMarketTicker = None,
             kalshiEventTitle = Some ''Trump and the Fed'', similarity = 2 / 3,
             confidence = 67, matchMethod = entity, mr_matchedEntities = [''trump''],
             reasoning = Some ''Entity-based fallback (AI unavailable or low confidence)''\<rparr>
   \<and> preFilterEvents ''Will Trump strike Iran?'' [event_K8] = [cand_K8]
   \<and> length (matchedEntities cand_K8) = 2 \<and> \<not> contextCompatible cand_K8
   \<and> eventIndex ai_no_match < 0 \<and> ai_reasoning ai_no_match = Some ''Different outcomes''
   \<and> fst (matchSingleMarket (classifierReturns ai_no_match) ''Will Trump strike Iran?''
             [event_K8]) =
        Inr \<lparr>kalshiEventTicker = None, kalshiMarketTicker = None, kalshiEventTitle = None,
             similarity = 0, confidence = 0, matchMethod = none, mr_matchedEntities = [],
             reasoning = Some ''Different outcomes''\<rparr>
   \<and> ai_confidence ai_silent < 25 \<and> ai_reasoning ai_silent = Some []
   \<and> fst (matchSingleMarket (classifierReturns ai_silent) ''Will Trump strike Iran?''
             [event_K8]) =
        Inr \<lparr>kalshiEventTicker = None, kalshiMarketTicker = None, kalshiEventTitle = None,
             similarity = 0, confidence = 0, matchMethod = none, mr_matchedEntities = [],
             reasoning = Some ''No confident match found''\<rparr>
   \<and> fst (matchSingleMarket classifierUnavailable ''Will Trump strike Iran?'' [event_K8]) =
        Inr \<lparr>kalshiEventTicker = None, kalshiMarketTicker = None, kalshiEventTitle = None,
             similarity = 0, confidence = 0, matchMethod = none, mr_matchedEntities = [],
             reasoning = Some ''No confident match found''\<rparr>"
  using classifier_failure_fallback [OF prefilter_election_K2, of classifierUnavailable None]
    classifier_failure_fallback [OF prefilter_strike_K8, of "classifierReturns ai_no_match"
      "Some ai_no_match"]
    classifier_failure_fallback [OF prefilter_strike_K8, of "classifierReturns ai_silent"
      "Some ai_silent"]
    classifier_failure_fallback [OF prefilter_strike_K8, of classifierUnavailable None]
  by (simp add: prefilter_election_K2 prefilter_strike_K8 cand_K2_election_def cand_K8_def
      ticker_K2 classifierUnavailable_def classifierReturns_def ai_no_match_def ai_silent_def
      round_def floor_eq_iff)

theorem classifier_failure_fallback_counterexample:
  "preFilterEvents ''Will Donald Trump win the 2028 election?'' [event_K7] = [cand_K7]
   \<and> length (matchedEntities cand_K7) = 1
   \<and> classifierUnavailable ''Will Donald Trump win the 2028 election?''
        (eventListOf (take 30 [cand_K7])) = None
   \<and> 4 / 10 \<le> entityScore cand_K7 \<and> contextCompatible cand_K7
   \<and> fst (matchSingleMarket classifierUnavailable ''Will Donald Trump win the 2028 election?''
             [event_K7]) = Inl SyntaxError"
proof -
  have ns: "\<not> (3 \<le> length (matchedEntities cand_K7) \<and> contextCompatible cand_K7)"
    by (simp add: cand_K7_def)
  show ?thesis
    by (simp add: matchSingleMarket_classifier [OF prefilter_election_K7 ns]
        prefilter_election_K7 classifierTier_def aiFailed_def classifierUnavailable_def
        withTicker_def ticker_K7 cand_K7_def)
qed

theorem out_of_bounds_index_witness:
  "preFilterEvents ''Will Donald Trump win the 2028 election?'' [event_K1] = [cand_K1]
   \<and> length (matchedEntities cand_K1) = 1
   \<and> classifierReturns ai_far_index ''Will Donald Trump win the 2028 election?''
        (eventListOf (take 30 [cand_K1])) = Some ai_far_index
   \<and> eventIndex ai_far_index = 5 \<and> ai_confidence ai_far_index = 90
   \<and> length (eventListOf (take 30 [cand_K1])) = 1
   \<and> fst (matchSingleMarket (classifierReturns ai_far_index)
             ''Will Donald Trump win the 2028 election?'' [event_K1]) =
        Inr \<lparr>kalshiEventTicker = None, kalshiMarketTicker = None, kalshiEventTitle = None,
             similarity = 0, confidence = 0, matchMethod = none, mr_matchedEntities = [],
             reasoning = Some ''AI returned out-of-bounds index''\<rparr>"
  using out_of_bounds_index [OF prefilter_election_K1, of "classifierReturns ai_far_index"
      ai_far_index]
  by (simp add: prefilter_election_K1 cand_K1_def classifierReturns_def ai_far_index_def
      eventListOf_def)

lemma prefilter_score_bounds:
  assumes "r \<in> set (preFilterEvents question events)"
  shows "0 < entityScore r" "entityScore r \<le> 1"
proof -
  have ents: "extractEntities question \<noteq> []"
    using assms preFilterEvents_no_entities [of question events] by auto
  from assms obtain event where
    c: "candidateOf (keySet question) (extractSemanticContext question) event = Some r"
    unfolding set_preFilterEvents [OF ents] by blast
  note cs = candidateOf_Some [OF c]
  have b: "0 < scoreOf (keySet question) (keySet (eventText event))"
      "scoreOf (keySet question) (keySet (eventText event)) \<le> 1"
    using scoreOf_bounds [OF distinct_keySet distinct_keySet] cs by simp_all
  show "0 < entityScore r" "entityScore r \<le> 1"
    using b cs by simp_all
qed

lemma round_percent_bounds:
  fixes x :: rat
  assumes "0 \<le> x" "x \<le> 100"
  shows "0 \<le> round x" "round x \<le> 100"
proof -
  have "(0::rat) \<le> x + 1 / 2" using assms(1) by simp
  then show "0 \<le> round x"
    unfolding round_def by (simp add: le_floor_iff)
  have "x + 1 / 2 < 101" using assms(2) by simp
  then have "\<lfloor>x + 1 / 2\<rfloor> < 101"
    by (simp add: floor_less_iff)
  then show "round x \<le> 100"
    unfolding round_def by simp
qed

lemma withTicker_Inr_D:
  "withTicker kalshiEvents ticker mk = Inr r \<Longrightarrow> \<exists>t. r = mk t"
  by (auto simp: withTicker_def split: sum.splits)

lemma classifierTier_Inr_D:
  assumes "classifierTier kalshiEvents topCandidate topN aiResult = Inr r"
  shows "(\<exists>why. r = noMatch why) \<or> (\<exists>t. r = fallbackResult topCandidate t)
       \<or> (\<exists>a c t. aiResult = Some a \<and> 0 \<le> eventIndex a \<and> 25 \<le> ai_confidence a
              \<and> r = aiResultOf c a t)"
proof (cases "aiFailed aiResult")
  case True
  with assms show ?thesis
    by (auto simp: classifierTier_def split: if_splits dest: withTicker_Inr_D)
next
  case False
  then obtain a where a: "aiResult = Some a" and i: "0 \<le> eventIndex a" and c: "25 \<le> ai_confidence a"
    by (cases aiResult) (auto simp: aiFailed_def)
  show ?thesis
  proof (cases "jsIndex topN (eventIndex a)")
    case None
    with assms False a show ?thesis
      by (auto simp: classifierTier_def)
  next
    case (Some c')
    with assms False a have "withTicker kalshiEvents (eventTicker c') (aiResultOf c' a) = Inr r"
      by (simp add: classifierTier_def)
    then obtain t where "r = aiResultOf c' a t"
      using withTicker_Inr_D by blast
    with a i c show ?thesis by blast
  qed
qed

lemma ranges_noMatch:
  "matchMethod (noMatch why) = none" "similarity (noMatch why) = 0" "confidence (noMatch why) = 0"
  by (simp_all add: noMatch_def)

lemma ranges_entity:
  assumes "0 < entityScore c" "entityScore c \<le> 1"
  shows "matchMethod (strongEntityResult c t) = entity"
    "0 \<le> similarity (strongEntityResult c t)" "similarity (strongEntityResult c t) \<le> 1"
    "confidence (strongEntityResult c t) \<in> \<int>"
    "0 \<le> confidence (strongEntityResult c t)" "confidence (strongEntityResult c t) \<le> 100"
    "matchMethod (fallbackResult c t) = entity"
    "0 \<le> similarity (fallbackResult c t)" "similarity (fallbackResult c t) \<le> 1"
    "confidence (fallbackResult c t) \<in> \<int>"
    "0 \<le> confidence (fallbackResult c t)" "confidence (fallbackResult c t) \<le> 100"
proof -
  let ?s = "entityScore c"
  have m: "0 \<le> min (?s * 150) 95" "min (?s * 150) 95 \<le> 100"
    using assms by simp_all
  have p: "0 \<le> ?s * 100" "?s * 100 \<le> 100"
    using assms by simp_all
  note rm = round_percent_bounds [OF m]
  note rp = round_percent_bounds [OF p]
  show "matchMethod (strongEntityResult c t) = entity"
    "matchMethod (fallbackResult c t) = entity"
    "confidence (strongEntityResult c t) \<in> \<int>"
    "confidence (fallbackResult c t) \<in> \<int>"
    by (simp_all add: strongEntityResult_def fallbackResult_def)
  show "0 \<le> similarity (strongEntityResult c t)" "similarity (strongEntityResult c t) \<le> 1"
    "0 \<le> similarity (fallbackResult c t)" "similarity (fallbackResult c t) \<le> 1"
    using assms by (simp_all add: strongEntityResult_def fallbackResult_def)
  show "0 \<le> confidence (strongEntityResult c t)" "confidence (strongEntityResult c t) \<le> 100"
    using rm unfolding strongEntityResult_def by simp_all
  show "0 \<le> confidence (fallbackResult c t)" "confidence (fallbackResult c t) \<le> 100"
    using rp unfolding fallbackResult_def by simp_all
qed

text \<open>
  C3 (amended). Every result that \<open>matchSingleMarket\<close> returns on the \<open>none\<close>
  and \<open>entity\<close> tiers has a similarity in \<open>[0, 1]\<close> and an integer confidence
  in \<open>[0, 100]\<close>. On the AI-accept tier the confidence is the classifier's reported
  confidence (at least 25), neither clamped nor rounded, and the similarity is that
  confidence divided by 100: they are in range exactly when the reported confidence is an
  integer of at most 100.
\<close>

theorem result_ranges:
  assumes "matchSingleMarket callLLMForMatch question kalshiEvents = (Inr r, calls)"
  shows "(matchMethod r \<noteq> ai \<longrightarrow>
            0 \<le> similarity r \<and> similarity r \<le> 1
            \<and> confidence r \<in> \<int> \<and> 0 \<le> confidence r \<and> confidence r \<le> 100)
       \<and> (matchMethod r = ai \<longrightarrow>
            (\<exists>a. callLLMForMatch question
                   (eventListOf (take 30 (preFilterEvents question kalshiEvents))) = Some a
                 \<and> 25 \<le> ai_confidence a
                 \<and> confidence r = ai_confidence a
                 \<and> similarity r = ai_confidence a / 100
                 \<and> ((0 \<le> similarity r \<and> similarity r \<le> 1
                      \<and> confidence r \<in> \<int> \<and> 0 \<le> confidence r \<and> confidence r \<le> 100)
                     \<longleftrightarrow> (ai_confidence a \<in> \<int> \<and> ai_confidence a \<le> 100))))"
proof (cases "preFilterEvents question kalshiEvents")
  case Nil
  with assms have "r = noMatch ''No entity overlap found''"
    by (simp add: matchSingleMarket_def)
  then show ?thesis
    by (simp add: ranges_noMatch)
next
  case (Cons topCandidate rest)
  have "topCandidate \<in> set (preFilterEvents question kalshiEvents)"
    unfolding Cons by simp
  note sb = prefilter_score_bounds [OF this]
  note re = ranges_entity [OF sb]
  show ?thesis
  proof (cases "3 \<le> length (matchedEntities topCandidate) \<and> contextCompatible topCandidate")
    case True
    then have "withTicker kalshiEvents (eventTicker topCandidate)
                 (strongEntityResult topCandidate) = Inr r"
      using assms matchSingleMarket_strong [OF Cons, of callLLMForMatch] by simp
    then obtain t where "r = strongEntityResult topCandidate t"
      using withTicker_Inr_D by blast
    then show ?thesis
      using re by simp
  next
    case False
    define aiResult where
      "aiResult = callLLMForMatch question (eventListOf (take 30 (topCandidate # rest)))"
    have "classifierTier kalshiEvents topCandidate (take 30 (topCandidate # rest)) aiResult
            = Inr r"
      using assms unfolding matchSingleMarket_classifier [OF Cons False] aiResult_def by simp
    from classifierTier_Inr_D [OF this]
    consider (nm) why where "r = noMatch why"
      | (fb) t where "r = fallbackResult topCandidate t"
      | (ac) a c t where "aiResult = Some a" "0 \<le> eventIndex a" "25 \<le> ai_confidence a"
          "r = aiResultOf c a t"
      by blast
    then show ?thesis
    proof cases
      case nm
      then show ?thesis by (simp add: ranges_noMatch)
    next
      case fb
      then show ?thesis using re by simp
    next
      case ac
      have m: "matchMethod r = ai" "confidence r = ai_confidence a"
        "similarity r = ai_confidence a / 100"
        using ac(4) by (simp_all add: aiResultOf_def)
      have call: "callLLMForMatch question
                    (eventListOf (take 30 (preFilterEvents question kalshiEvents))) = Some a"
        using ac(1) unfolding aiResult_def Cons .
      have "(0 \<le> similarity r \<and> similarity r \<le> 1
              \<and> confidence r \<in> \<int> \<and> 0 \<le> confidence r \<and> confidence r \<le> 100)
            \<longleftrightarrow> (ai_confidence a \<in> \<int> \<and> ai_confidence a \<le> 100)"
        using ac(3) unfolding m by auto
      with m call ac(3) show ?thesis by blast
    qed
  qed
qed

lemma accept_election_K1:
  "matchSingleMarket (classifierReturns ai_accept) ''Will Donald Trump win the 2028 election?''
     [event_K1] =
   (Inr result_accept,
    [(''Will Donald Trump win the 2028 election?'', eventListOf (take 30 [cand_K1]))])"
proof -
  have ns: "\<not> (3 \<le> length (matchedEntities cand_K1) \<and> contextCompatible cand_K1)"
    by (simp add: cand_K1_def)
  have e: "eventTicker cand_K1 = ''K1''"
    by (simp add: cand_K1_def)
  show ?thesis
    unfolding matchSingleMarket_classifier [OF prefilter_election_K1 ns]
    by (simp add: classifierTier_def aiFailed_def classifierReturns_def ai_accept_def
        jsIndex_def withTicker_def e ticker_K1 aiResultOf_def result_accept_def)
       (simp add: cand_K1_def)
qed

theorem result_ranges_witness:
  "matchSingleMarket (classifierReturns ai_accept) ''Will Donald Trump win the 2028 election?''
     [event_K1] =
   (Inr result_accept,
    [(''Will Donald Trump win the 2028 election?'', eventListOf (take 30 [cand_K1]))])
   \<and> matchMethod result_accept = ai
   \<and> classifierReturns ai_accept ''Will Donald Trump win the 2028 election?''
        (eventListOf (take 30 [cand_K1])) = Some ai_accept
   \<and> ai_confidence ai_accept \<in> \<int> \<and> ai_confidence ai_accept \<le> 100
   \<and> 0 \<le> similarity result_accept \<and> similarity result_accept \<le> 1
   \<and> confidence result_accept \<in> \<int>
   \<and> 0 \<le> confidence result_accept \<and> confidence result_accept \<le> 100"
  using result_ranges [OF accept_election_K1] accept_election_K1
  by (simp add: result_accept_def classifierReturns_def ai_accept_def)

theorem result_ranges_counterexample:
  "fst (matchSingleMarket (classifierReturns ai_overconfident)
          ''Will Donald Trump win the 2028 election?'' [event_K1]) = Inr result_overconfident
   \<and> 1 < similarity result_overconfident \<and> 100 < confidence result_overconfident"
proof -
  have ns: "\<not> (3 \<le> length (matchedEntities cand_K1) \<and> contextCompatible cand_K1)"
    by (simp add: cand_K1_def)
  have e: "eventTicker cand_K1 = ''K1''"
    by (simp add: cand_K1_def)
  show ?thesis
    unfolding matchSingleMarket_classifier [OF prefilter_election_K1 ns]
    by (simp add: classifierTier_def aiFailed_def classifierReturns_def ai_overconfident_def
        jsIndex_def withTicker_def e ticker_K1 aiResultOf_def result_overconfident_def)
       (simp add: cand_K1_def)
qed

lemma getProp_status_nonnull:
  "m \<noteq> JNull \<Longrightarrow>
   getProp m ''status'' = Inr (case m of JObj fs \<Rightarrow> map_of fs ''status'' | _ \<Rightarrow> None)"
  by (cases m) simp_all

lemma findOpen_step:
  "m \<noteq> JNull \<Longrightarrow>
   findOpen (m # ms) = (if isOpenMarket m then Inr (Some m) else findOpen ms)"
  by (cases m) (simp_all add: isOpenMarket_def)

lemma findOpen_null: "findOpen (JNull # ms) = Inl TypeError"
  by simp

lemma findOpen_cases:
  "findOpen ms = (if nullBeforeOpen ms then Inl TypeError else Inr (find isOpenMarket ms))"
proof (induction ms)
  case Nil
  then show ?case by (simp add: nullBeforeOpen_def)
next
  case (Cons m ms)
  show ?case
  proof (cases "m = JNull")
    case True
    have "nullBeforeOpen (m # ms)"
      unfolding True by (simp add: nullBeforeOpen_def isOpenMarket_def)
    then show ?thesis
      unfolding True findOpen_null by simp
  next
    case False
    have nb: "nullBeforeOpen (m # ms) \<longleftrightarrow> \<not> isOpenMarket m \<and> nullBeforeOpen ms"
      using False by (auto simp: nullBeforeOpen_def)
    show ?thesis
      unfolding findOpen_step [OF False] nb Cons.IH by simp
  qed
qed

lemma chosen_ticker:
  "(case bestMarket of
      None \<Rightarrow> Inr None
    | Some JNull \<Rightarrow> Inr None
    | Some m \<Rightarrow>
        (case getProp m ''ticker'' of
           Inl err \<Rightarrow> Inl err
         | Inr None \<Rightarrow> Inr None
         | Inr (Some t) \<Rightarrow> Inr (if truthy t then Some t else None)))
   = (Inr (case bestMarket of None \<Rightarrow> None | Some m \<Rightarrow> tickerOrNull m) :: js_error + json option)"
proof (cases bestMarket)
  case None
  then show ?thesis by simp
next
  case (Some m)
  then show ?thesis
    by (cases m) (simp_all add: tickerOrNull_def split: option.splits)
qed

lemma bestTicker_array:
  assumes "\<not> nullBeforeOpen ms"
  shows "bestTicker (JArr ms) = Inr (preferredTicker ms)"
proof -
  have fo: "findOpen ms = Inr (find isOpenMarket ms)"
    using assms by (simp add: findOpen_cases)
  have "bestTicker (JArr ms) =
          Inr (case (case find isOpenMarket ms of
                       Some m \<Rightarrow> Some m
                     | None \<Rightarrow> (case ms of [] \<Rightarrow> None | m0 # _ \<Rightarrow> Some m0)) of
                 None \<Rightarrow> None
               | Some m \<Rightarrow> tickerOrNull m)"
    by (simp only: bestTicker_def json.case fo sum.case Let_def chosen_ticker)
  also have "\<dots> = Inr (preferredTicker ms)"
    by (simp add: preferredTicker_def split: option.splits list.splits)
  finally show ?thesis .
qed

lemma bestTicker_null:
  assumes "nullBeforeOpen ms"
  shows "bestTicker (JArr ms) = Inl TypeError"
proof -
  have fo: "findOpen ms = Inl TypeError"
    using assms by (simp add: findOpen_cases)
  show ?thesis
    by (simp only: bestTicker_def json.case fo sum.case)
qed

lemma marketTickerOf_row:
  assumes "find (\<lambda>e. event_ticker e = ticker) kalshiEvents = Some row"
  shows "markets_json row = None \<Longrightarrow> marketTickerOf kalshiEvents ticker = Inr None"
    and "markets_json row = Some (JSONText (JArr ms)) \<Longrightarrow> \<not> nullBeforeOpen ms \<Longrightarrow>
         marketTickerOf kalshiEvents ticker = Inr (preferredTicker ms)"
    and "markets_json row = Some (JSONText (JArr ms)) \<Longrightarrow> nullBeforeOpen ms \<Longrightarrow>
         marketTickerOf kalshiEvents ticker = Inl TypeError"
proof -
  show "marketTickerOf kalshiEvents ticker = Inr None" if "markets_json row = None"
    using assms that by (simp add: marketTickerOf_def parseMarkets_def bestTicker_def)
  show "marketTickerOf kalshiEvents ticker = Inr (preferredTicker ms)"
    if "markets_json row = Some (JSONText (JArr ms))" "\<not> nullBeforeOpen ms"
    using assms that by (simp add: marketTickerOf_def parseMarkets_def bestTicker_array)
  show "marketTickerOf kalshiEvents ticker = Inl TypeError"
    if "markets_json row = Some (JSONText (JArr ms))" "nullBeforeOpen ms"
    using assms that by (simp add: marketTickerOf_def parseMarkets_def bestTicker_null)
qed

lemma jsIndex_mem: "jsIndex xs i = Some c \<Longrightarrow> c \<in> set xs"
  by (auto simp: jsIndex_def split: if_splits)

lemma candidate_row:
  assumes "c \<in> set (preFilterEvents question kalshiEvents)"
  shows "\<exists>row. find (\<lambda>e. event_ticker e = eventTicker c) kalshiEvents = Some row"
proof -
  have ents: "extractEntities question \<noteq> []"
    using assms preFilterEvents_no_entities [of question kalshiEvents] by auto
  from assms obtain event where ev: "event \<in> set kalshiEvents"
    and c: "candidateOf (keySet question) (extractSemanticContext question) event = Some c"
    unfolding set_preFilterEvents [OF ents] by blast
  have "event_ticker event = eventTicker c"
    using candidateOf_Some [OF c] by simp
  with ev have "find (\<lambda>e. event_ticker e = eventTicker c) kalshiEvents \<noteq> None"
    by (auto simp: find_None_iff)
  then show ?thesis by auto
qed

lemma jsIndex_iff:
  "jsIndex xs i = Some c \<longleftrightarrow> (\<exists>k<length xs. i = of_nat k \<and> c = xs ! k)"
proof
  assume "jsIndex xs i = Some c"
  then have i: "0 \<le> i" "of_int \<lfloor>i\<rfloor> = i" "nat \<lfloor>i\<rfloor> < length xs" and c: "c = xs ! nat \<lfloor>i\<rfloor>"
    by (auto simp: jsIndex_def split: if_splits)
  have "0 \<le> \<lfloor>i\<rfloor>"
    using i(1) by simp
  then have eq: "rat_of_nat (nat \<lfloor>i\<rfloor>) = of_int \<lfloor>i\<rfloor>"
    by simp
  have "i = of_nat (nat \<lfloor>i\<rfloor>)"
    by (rule trans [OF i(2) [symmetric] eq [symmetric]])
  with i(3) c show "\<exists>k<length xs. i = of_nat k \<and> c = xs ! k"
    by blast
next
  assume "\<exists>k<length xs. i = of_nat k \<and> c = xs ! k"
  then obtain k where "k < length xs" "i = of_nat k" "c = xs ! k"
    by blast
  then show "jsIndex xs i = Some c"
    by (simp add: jsIndex_def)
qed

lemma matchedEvent_classifier:
  assumes "preFilterEvents question kalshiEvents = topCandidate # rest"
    and "\<not> (3 \<le> length (matchedEntities topCandidate) \<and> contextCompatible topCandidate)"
  shows "matchedEvent callLLMForMatch question kalshiEvents c \<longleftrightarrow>
     (if aiFailed (callLLMForMatch question (eventListOf (take 30 (topCandidate # rest))))
      then 4 / 10 \<le> entityScore topCandidate \<and> contextCompatible topCandidate
           \<and> c = topCandidate
      else (case callLLMForMatch question (eventListOf (take 30 (topCandidate # rest))) of
              None \<Rightarrow> False
            | Some a \<Rightarrow> jsIndex (take 30 (topCandidate # rest)) (eventIndex a) = Some c))"
proof -
  define topN where "topN = take 30 (topCandidate # rest)"
  define aiResult where "aiResult = callLLMForMatch question (eventListOf topN)"
  have "matchedEvent callLLMForMatch question kalshiEvents c \<longleftrightarrow>
     (case aiResult of
        None \<Rightarrow> 4 / 10 \<le> entityScore topCandidate \<and> contextCompatible topCandidate
                 \<and> c = topCandidate
      | Some a \<Rightarrow>
          if eventIndex a < 0 \<or> ai_confidence a < 25
          then 4 / 10 \<le> entityScore topCandidate \<and> contextCompatible topCandidate
               \<and> c = topCandidate
          else (\<exists>i<length topN. eventIndex a = of_nat i \<and> c = topN ! i))"
    by (simp only: matchedEvent_def assms(1) list.case if_not_P [OF assms(2)] Let_def
        topN_def aiResult_def)
  also have "\<dots> \<longleftrightarrow>
     (if aiFailed aiResult
      then 4 / 10 \<le> entityScore topCandidate \<and> contextCompatible topCandidate
           \<and> c = topCandidate
      else (case aiResult of
              None \<Rightarrow> False
            | Some a \<Rightarrow> jsIndex topN (eventIndex a) = Some c))"
    by (cases aiResult) (simp_all add: aiFailed_def jsIndex_iff)
  finally show ?thesis
    unfolding topN_def aiResult_def .
qed

lemma matchedEvent_outcome:
  assumes "matchedEvent callLLMForMatch question kalshiEvents c"
  shows "c \<in> set (preFilterEvents question kalshiEvents)
     \<and> (\<exists>mk. fst (matchSingleMarket callLLMForMatch question kalshiEvents)
                = withTicker kalshiEvents (eventTicker c) mk
              \<and> (\<forall>t. kalshiEventTicker (mk t) = Some (eventTicker c)
                     \<and> kalshiEventTitle (mk t) = Some (eventTitle c)
                     \<and> kalshiMarketTicker (mk t) = t))"
proof (cases "preFilterEvents question kalshiEvents")
  case Nil
  with assms show ?thesis by (simp add: matchedEvent_def)
next
  case (Cons topCandidate rest)
  show ?thesis
  proof (cases "3 \<le> length (matchedEntities topCandidate) \<and> contextCompatible topCandidate")
    case True
    with assms Cons have c: "c = topCandidate"
      by (simp add: matchedEvent_def)
    have "fst (matchSingleMarket callLLMForMatch question kalshiEvents)
            = withTicker kalshiEvents (eventTicker c) (strongEntityResult c)"
      using True matchSingleMarket_strong [OF Cons, of callLLMForMatch] c by simp
    moreover have "\<forall>t. kalshiEventTicker (strongEntityResult c t) = Some (eventTicker c)
                     \<and> kalshiEventTitle (strongEntityResult c t) = Some (eventTitle c)
                     \<and> kalshiMarketTicker (strongEntityResult c t) = t"
      by (simp add: strongEntityResult_def)
    ultimately show ?thesis
      using c Cons by auto
  next
    case False
    define topN where "topN = take 30 (topCandidate # rest)"
    define aiResult where "aiResult = callLLMForMatch question (eventListOf topN)"
    have out: "fst (matchSingleMarket callLLMForMatch question kalshiEvents)
                 = classifierTier kalshiEvents topCandidate topN aiResult"
      unfolding matchSingleMarket_classifier [OF Cons False] topN_def aiResult_def by simp
    have me: "if aiFailed aiResult
              then 4 / 10 \<le> entityScore topCandidate \<and> contextCompatible topCandidate
                   \<and> c = topCandidate
              else (case aiResult of None \<Rightarrow> False
                    | Some a \<Rightarrow> jsIndex topN (eventIndex a) = Some c)"
      using assms
      unfolding matchedEvent_classifier [OF Cons False] topN_def [symmetric]
        aiResult_def [symmetric] .
    show ?thesis
    proof (cases "aiFailed aiResult")
      case True
      with me have fb: "4 / 10 \<le> entityScore topCandidate \<and> contextCompatible topCandidate"
        and c: "c = topCandidate" by simp_all
      have "fst (matchSingleMarket callLLMForMatch question kalshiEvents)
              = withTicker kalshiEvents (eventTicker c) (fallbackResult c)"
        unfolding out using True fb c by (simp add: classifierTier_def)
      moreover have "\<forall>t. kalshiEventTicker (fallbackResult c t) = Some (eventTicker c)
                     \<and> kalshiEventTitle (fallbackResult c t) = Some (eventTitle c)
                     \<and> kalshiMarketTicker (fallbackResult c t) = t"
        by (simp add: fallbackResult_def)
      ultimately show ?thesis
        using c Cons by auto
    next
      case nf: False
      with me obtain a where a: "aiResult = Some a" and i: "jsIndex topN (eventIndex a) = Some c"
        by (cases aiResult) simp_all
      have "c \<in> set topN" using i by (rule jsIndex_mem)
      then have mem: "c \<in> set (preFilterEvents question kalshiEvents)"
        unfolding topN_def Cons by (rule in_set_takeD)
      have "fst (matchSingleMarket callLLMForMatch question kalshiEvents)
              = withTicker kalshiEvents (eventTicker c) (aiResultOf c a)"
        unfolding out using nf a i by (simp add: classifierTier_def)
      moreover have "\<forall>t. kalshiEventTicker (aiResultOf c a t) = Some (eventTicker c)
                     \<and> kalshiEventTitle (aiResultOf c a t) = Some (eventTitle c)
                     \<and> kalshiMarketTicker (aiResultOf c a t) = t"
        by (simp add: aiResultOf_def)
      ultimately show ?thesis
        using mem by auto
    qed
  qed
qed

text \<open>
  C10 (amended). On every tier that matches a target event (strong entity, entity
  fallback, AI accept), the event row found by the matched candidate's ticker exists. If
  its nested markets column is \<open>null\<close> or an empty array, \<open>matchSingleMarket\<close>
  does not fail: the result has the event's ticker and title and the market ticker
  \<open>null\<close>. If the column is an array in which no \<open>null\<close> entry comes before the
  first entry with status \<open>open\<close> or \<open>active\<close> (none at all when no entry has
  that status), the result has the event's ticker and title, and its market ticker is that
  of the first entry with status \<open>open\<close> or \<open>active\<close>, else that of the first
  entry (\<open>null\<close> when that ticker is missing or falsy). If a \<open>null\<close> entry does
  come before, reading its status throws and the outcome is that \<open>TypeError\<close>.
\<close>

theorem nested_market_choice:
  assumes "matchedEvent callLLMForMatch question kalshiEvents c"
  shows "\<exists>row. find (\<lambda>e. event_ticker e = eventTicker c) kalshiEvents = Some row
     \<and> (markets_json row = None \<or> markets_json row = Some (JSONText (JArr [])) \<longrightarrow>
          (\<exists>r. fst (matchSingleMarket callLLMForMatch question kalshiEvents) = Inr r
             \<and> kalshiEventTicker r = Some (eventTicker c)
             \<and> kalshiEventTitle r = Some (eventTitle c)
             \<and> kalshiMarketTicker r = None))
     \<and> (\<forall>ms. markets_json row = Some (JSONText (JArr ms)) \<and> \<not> nullBeforeOpen ms \<longrightarrow>
          (\<exists>r. fst (matchSingleMarket callLLMForMatch question kalshiEvents) = Inr r
             \<and> kalshiEventTicker r = Some (eventTicker c)
             \<and> kalshiEventTitle r = Some (eventTitle c)
             \<and> kalshiMarketTicker r = preferredTicker ms))
     \<and> (\<forall>ms. markets_json row = Some (JSONText (JArr ms)) \<and> nullBeforeOpen ms \<longrightarrow>
          fst (matchSingleMarket callLLMForMatch question kalshiEvents) = Inl TypeError)"
proof -
  from matchedEvent_outcome [OF assms] obtain mk
    where mem: "c \<in> set (preFilterEvents question kalshiEvents)"
      and out: "fst (matchSingleMarket callLLMForMatch question kalshiEvents)
                  = withTicker kalshiEvents (eventTicker c) mk"
      and mk: "\<And>t. kalshiEventTicker (mk t) = Some (eventTicker c)
                   \<and> kalshiEventTitle (mk t) = Some (eventTitle c)
                   \<and> kalshiMarketTicker (mk t) = t"
    by blast
  from candidate_row [OF mem] obtain row
    where row: "find (\<lambda>e. event_ticker e = eventTicker c) kalshiEvents = Some row"
    by blast
  note mt = marketTickerOf_row [OF row]
  have a: "\<exists>r. fst (matchSingleMarket callLLMForMatch question kalshiEvents) = Inr r
             \<and> kalshiEventTicker r = Some (eventTicker c)
             \<and> kalshiEventTitle r = Some (eventTitle c)
             \<and> kalshiMarketTicker r = None"
    if "markets_json row = None \<or> markets_json row = Some (JSONText (JArr []))"
  proof -
    have "\<not> nullBeforeOpen []"
      by (simp add: nullBeforeOpen_def)
    then have "marketTickerOf kalshiEvents (eventTicker c) = Inr None"
      using that mt(1) mt(2) [of "[]"] by (auto simp: preferredTicker_def)
    then have "fst (matchSingleMarket callLLMForMatch question kalshiEvents) = Inr (mk None)"
      unfolding out by (rule withTicker_Inr)
    then show ?thesis using mk by simp
  qed
  have b: "\<exists>r. fst (matchSingleMarket callLLMForMatch question kalshiEvents) = Inr r
             \<and> kalshiEventTicker r = Some (eventTicker c)
             \<and> kalshiEventTitle r = Some (eventTitle c)
             \<and> kalshiMarketTicker r = preferredTicker ms"
    if "markets_json row = Some (JSONText (JArr ms)) \<and> \<not> nullBeforeOpen ms" for ms
  proof -
    have "marketTickerOf kalshiEvents (eventTicker c) = Inr (preferredTicker ms)"
      using that mt(2) by blast
    then have "fst (matchSingleMarket callLLMForMatch question kalshiEvents)
                 = Inr (mk (preferredTicker ms))"
      unfolding out by (rule withTicker_Inr)
    then show ?thesis using mk by simp
  qed
  have d: "fst (matchSingleMarket callLLMForMatch question kalshiEvents) = Inl TypeError"
    if "markets_json row = Some (JSONText (JArr ms)) \<and> nullBeforeOpen ms" for ms
  proof -
    have "marketTickerOf kalshiEvents (eventTicker c) = Inl TypeError"
      using that mt(3) by blast
    then show ?thesis
      unfolding out by (rule withTicker_Inl)
  qed
  show ?thesis
    using row a b d by blast
qed

lemma prefilter_doge_K6: "preFilterEvents ''Trump, the Fed and DOGE'' [event_K6] = [cand_K6]"
  by code_simp

lemma ticker_K6: "marketTickerOf [event_K6] ''K6'' = Inl TypeError"
  by code_simp

theorem nested_market_choice_witness:
  "matchedEvent classifierUnavailable ''Trump, the Fed and DOGE'' [event_K9] cand_K9
   \<and> find (\<lambda>e. event_ticker e = eventTicker cand_K9) [event_K9] = Some event_K9
   \<and> markets_json event_K9 = Some (JSONText (JArr markets_K9))
   \<and> \<not> nullBeforeOpen markets_K9
   \<and> preferredTicker markets_K9 = Some (JStr ''K9-B'')
   \<and> (\<exists>r. fst (matchSingleMarket classifierUnavailable ''Trump, the Fed and DOGE'' [event_K9])
             = Inr r
          \<and> kalshiEventTicker r = Some ''K9''
          \<and> kalshiMarketTicker r = Some (JStr ''K9-B''))
   \<and> matchedEvent classifierUnavailable ''Will Donald Trump win the 2028 election?''
        [event_K2] cand_K2_election
   \<and> find (\<lambda>e. event_ticker e = eventTicker cand_K2_election) [event_K2] = Some event_K2
   \<and> markets_json event_K2 = None
   \<and> (\<exists>r. fst (matchSingleMarket classifierUnavailable
                   ''Will Donald Trump win the 2028 election?'' [event_K2]) = Inr r
          \<and> kalshiEventTicker r = Some ''K2''
          \<and> kalshiEventTitle r = Some ''Trump and the Fed''
          \<and> kalshiMarketTicker r = None)
   \<and> matchedEvent classifierUnavailable ''Trump, the Fed and DOGE'' [event_K6] cand_K6
   \<and> find (\<lambda>e. event_ticker e = eventTicker cand_K6) [event_K6] = Some event_K6
   \<and> markets_json event_K6 = Some (JSONText (JArr markets_K6))
   \<and> nullBeforeOpen markets_K6
   \<and> fst (matchSingleMarket classifierUnavailable ''Trump, the Fed and DOGE'' [event_K6])
       = Inl TypeError
   \<and> matchedEvent (classifierReturns ai_accept) ''Will Donald Trump win the 2028 election?''
        [event_K1] cand_K1
   \<and> find (\<lambda>e. event_ticker e = eventTicker cand_K1) [event_K1] = Some event_K1
   \<and> markets_json event_K1 = None
   \<and> (\<exists>r. fst (matchSingleMarket (classifierReturns ai_accept)
                   ''Will Donald Trump win the 2028 election?'' [event_K1]) = Inr r
          \<and> kalshiEventTicker r = Some ''K1''
          \<and> kalshiEventTitle r = Some ''Who will win the 2028 presidential election?''
          \<and> kalshiMarketTicker r = None)"
proof -
  have me1: "matchedEvent (classifierReturns ai_accept)
               ''Will Donald Trump win the 2028 election?'' [event_K1] cand_K1"
    unfolding matchedEvent_def prefilter_election_K1
    by (simp add: cand_K1_def classifierReturns_def ai_accept_def)
  have f1: "find (\<lambda>e. event_ticker e = eventTicker cand_K1) [event_K1] = Some event_K1"
    by (simp add: event_K1_def cand_K1_def)
  have j1: "markets_json event_K1 = None"
    by (simp add: event_K1_def)
  have e1: "eventTicker cand_K1 = ''K1''"
    "eventTitle cand_K1 = ''Who will win the 2028 presidential election?''"
    by (simp_all add: cand_K1_def)
  have me9: "matchedEvent classifierUnavailable ''Trump, the Fed and DOGE'' [event_K9] cand_K9"
    unfolding matchedEvent_def prefilter_doge_K9 by (simp add: cand_K9_def)
  have f9: "find (\<lambda>e. event_ticker e = eventTicker cand_K9) [event_K9] = Some event_K9"
    by (simp add: event_K9_def cand_K9_def)
  have j9: "markets_json event_K9 = Some (JSONText (JArr markets_K9))"
    by (simp add: event_K9_def)
  have n9: "\<not> nullBeforeOpen markets_K9"
    by (simp add: nullBeforeOpen_def markets_K9_def isOpenMarket_def)
  have p9: "preferredTicker markets_K9 = Some (JStr ''K9-B'')"
    by (simp add: preferredTicker_def markets_K9_def isOpenMarket_def tickerOrNull_def)
  have e9: "eventTicker cand_K9 = ''K9''"
    by (simp add: cand_K9_def)
  have me2: "matchedEvent classifierUnavailable ''Will Donald Trump win the 2028 election?''
               [event_K2] cand_K2_election"
    unfolding matchedEvent_def prefilter_election_K2
    by (simp add: cand_K2_election_def classifierUnavailable_def)
  have f2: "find (\<lambda>e. event_ticker e = eventTicker cand_K2_election) [event_K2] = Some event_K2"
    by (simp add: event_K2_def cand_K2_election_def)
  have j2: "markets_json event_K2 = None"
    by (simp add: event_K2_def)
  have e2: "eventTicker cand_K2_election = ''K2''" "eventTitle cand_K2_election = ''Trump and the Fed''"
    by (simp_all add: cand_K2_election_def)
  have me6: "matchedEvent classifierUnavailable ''Trump, the Fed and DOGE'' [event_K6] cand_K6"
    unfolding matchedEvent_def prefilter_doge_K6 by (simp add: cand_K6_def)
  have f6: "find (\<lambda>e. event_ticker e = eventTicker cand_K6) [event_K6] = Some event_K6"
    by (simp add: event_K6_def cand_K6_def)
  have j6: "markets_json event_K6 = Some (JSONText (JArr markets_K6))"
    by (simp add: event_K6_def)
  have n6: "nullBeforeOpen markets_K6"
    by (simp add: nullBeforeOpen_def markets_K6_def isOpenMarket_def)
  show ?thesis
    using nested_market_choice [OF me9] nested_market_choice [OF me2]
      nested_market_choice [OF me6] nested_market_choice [OF me1]
    unfolding f9 f2 f6 f1
    by (simp add: me9 me2 me6 me1 j9 j2 j6 j1 n9 n6 p9 e9 e2 e1 f9 f2 f6 f1) blast
qed

theorem nested_market_choice_counterexample:
  "matchedEvent classifierUnavailable ''Trump, the Fed and DOGE'' [event_K6] cand_K6
   \<and> find (\<lambda>e. event_ticker e = eventTicker cand_K6) [event_K6] = Some event_K6
   \<and> markets_json event_K6
       = Some (JSONText (JArr [JNull, JObj [(''ticker'', JStr ''K6-B''),
                                            (''status'', JStr ''open'')]]))
   \<and> preferredTicker [JNull, JObj [(''ticker'', JStr ''K6-B''), (''status'', JStr ''open'')]]
       = Some (JStr ''K6-B'')
   \<and> fst (matchSingleMarket classifierUnavailable ''Trump, the Fed and DOGE'' [event_K6])
       = Inl TypeError"
proof -
  have s: "3 \<le> length (matchedEntities cand_K6)" and c: "contextCompatible cand_K6"
    by (simp_all add: cand_K6_def)
  have e: "eventTicker cand_K6 = ''K6''"
    by (simp add: cand_K6_def)
  have me: "matchedEvent classifierUnavailable ''Trump, the Fed and DOGE'' [event_K6] cand_K6"
    unfolding matchedEvent_def prefilter_doge_K6 by (simp add: cand_K6_def)
  have f: "find (\<lambda>e. event_ticker e = eventTicker cand_K6) [event_K6] = Some event_K6"
    by (simp add: event_K6_def cand_K6_def)
  have j: "markets_json event_K6
       = Some (JSONText (JArr [JNull, JObj [(''ticker'', JStr ''K6-B''),
                                            (''status'', JStr ''open'')]]))"
    by (simp add: event_K6_def markets_K6_def)
  have p: "preferredTicker [JNull, JObj [(''ticker'', JStr ''K6-B''), (''status'', JStr ''open'')]]
       = Some (JStr ''K6-B'')"
    by (simp add: preferredTicker_def isOpenMarket_def tickerOrNull_def)
  have out: "fst (matchSingleMarket classifierUnavailable ''Trump, the Fed and DOGE'' [event_K6])
       = Inl TypeError"
    by (simp add: matchSingleMarket_strong [OF prefilter_doge_K6 s c] withTicker_def e ticker_K6)
  show ?thesis
    using me f j p out by simp
qed

lemma yearOf_fst_ge: "y \<le> fst (yearOf y d)"
proof (induction y d rule: yearOf.induct)
  case (1 y d)
  show ?case
  proof (cases "d < daysInYear y")
    case True
    then show ?thesis by (simp add: yearOf.simps)
  next
    case False
    with 1 have "y + 1 \<le> fst (yearOf (y + 1) (d - daysInYear y))" by simp
    with False show ?thesis by (simp add: yearOf.simps [of y d])
  qed
qed

lemma yearOf_snd_lt: "snd (yearOf y d) < daysInYear (fst (yearOf y d))"
proof (induction y d rule: yearOf.induct)
  case (1 y d)
  show ?case
  proof (cases "d < daysInYear y")
    case True
    then show ?thesis by (simp add: yearOf.simps)
  next
    case False
    with 1 show ?thesis by (simp add: yearOf.simps [of y d])
  qed
qed

lemma yearOf_lower: "y + d div 366 \<le> fst (yearOf y d)"
proof (induction y d rule: yearOf.induct)
  case (1 y d)
  show ?case
  proof (cases "d < daysInYear y")
    case True
    then have "d < 366" by (simp add: daysInYear_def split: if_splits)
    with True show ?thesis by (simp add: yearOf.simps)
  next
    case False
    with 1 have ih: "y + 1 + (d - daysInYear y) div 366 \<le> fst (yearOf (y + 1) (d - daysInYear y))"
      by simp
    have "daysInYear y \<le> 366" by (simp add: daysInYear_def)
    then have "d \<le> (d - daysInYear y) + 366" by simp
    then have "d div 366 \<le> ((d - daysInYear y) + 366) div 366"
      by (rule div_le_mono)
    then have "d div 366 \<le> 1 + (d - daysInYear y) div 366"
      by simp
    with ih False show ?thesis by (simp add: yearOf.simps [of y d])
  qed
qed

lemma yearOf_mono:
  "d1 \<le> d2 \<Longrightarrow>
   fst (yearOf y d1) < fst (yearOf y d2)
   \<or> (fst (yearOf y d1) = fst (yearOf y d2) \<and> snd (yearOf y d1) \<le> snd (yearOf y d2))"
proof (induction y d1 arbitrary: d2 rule: yearOf.induct)
  case (1 y d1)
  show ?case
  proof (cases "d1 < daysInYear y")
    case True
    show ?thesis
    proof (cases "d2 < daysInYear y")
      case d2: True
      with True "1.prems" show ?thesis by (simp add: yearOf.simps)
    next
      case d2: False
      have "y + 1 \<le> fst (yearOf (y + 1) (d2 - daysInYear y))"
        by (rule yearOf_fst_ge)
      with True d2 show ?thesis
        by (simp add: yearOf.simps [of y d1] yearOf.simps [of y d2])
    qed
  next
    case False
    with "1.prems" have d2: "\<not> d2 < daysInYear y" by simp
    have "d1 - daysInYear y \<le> d2 - daysInYear y"
      using "1.prems" by simp
    from "1.IH" [OF False this] False d2 show ?thesis
      by (simp add: yearOf.simps [of y d1] yearOf.simps [of y d2])
  qed
qed

lemma monthOf_fst_ge: "m \<le> fst (monthOf ls m d)"
proof (induction ls arbitrary: m d)
  case Nil
  then show ?case by simp
next
  case (Cons l ls)
  have "m + 1 \<le> fst (monthOf ls (m + 1) (d - l))" by (rule Cons.IH)
  then show ?case by simp
qed

lemma monthOf_fst_le: "fst (monthOf ls m d) \<le> m + length ls"
proof (induction ls arbitrary: m d)
  case Nil
  then show ?case by simp
next
  case (Cons l ls)
  have "fst (monthOf ls (m + 1) (d - l)) \<le> m + 1 + length ls" by (rule Cons.IH)
  then show ?case by simp
qed

lemma monthOf_snd_lt:
  "d < sum_list ls \<Longrightarrow> \<forall>l\<in>set ls. l \<le> 31 \<Longrightarrow> snd (monthOf ls m d) < 31"
proof (induction ls arbitrary: m d)
  case Nil
  then show ?case by simp
next
  case (Cons l ls)
  show ?case
  proof (cases "d < l")
    case True
    with Cons.prems show ?thesis by simp
  next
    case False
    with Cons.prems have "d - l < sum_list ls" by simp
    from Cons.IH [OF this] Cons.prems False show ?thesis by simp
  qed
qed

lemma monthOf_mono:
  "d1 \<le> d2 \<Longrightarrow>
   fst (monthOf ls m d1) < fst (monthOf ls m d2)
   \<or> (fst (monthOf ls m d1) = fst (monthOf ls m d2)
       \<and> snd (monthOf ls m d1) \<le> snd (monthOf ls m d2))"
proof (induction ls arbitrary: m d1 d2)
  case Nil
  then show ?case by simp
next
  case (Cons l ls)
  show ?case
  proof (cases "d1 < l")
    case True
    show ?thesis
    proof (cases "d2 < l")
      case d2: True
      with True Cons.prems show ?thesis by simp
    next
      case d2: False
      have "m + 1 \<le> fst (monthOf ls (m + 1) (d2 - l))" by (rule monthOf_fst_ge)
      with True d2 show ?thesis by simp
    qed
  next
    case False
    with Cons.prems have d2: "\<not> d2 < l" by simp
    have "d1 - l \<le> d2 - l" using Cons.prems by simp
    from Cons.IH [OF this, of "m + 1"] False d2 show ?thesis by simp
  qed
qed

lemma sum_monthLengths: "sum_list (monthLengths y) = daysInYear y"
  by (simp add: monthLengths_def daysInYear_def)

lemma monthLengths_le: "\<forall>l\<in>set (monthLengths y). l \<le> 31"
  by (simp add: monthLengths_def)

lemma civil_bounds:
  assumes "civil days = (y, m, d)"
  shows "m < 100" "d < 100"
proof -
  obtain y' doy where yo: "yearOf 1970 days = (y', doy)"
    by (cases "yearOf 1970 days") auto
  obtain m' dom where mo: "monthOf (monthLengths y') 1 doy = (m', dom)"
    by (cases "monthOf (monthLengths y') 1 doy") auto
  have c: "y = y'" "m = m'" "d = dom + 1"
    using assms yo mo by (simp_all add: civil_def)
  have "doy < daysInYear y'"
    using yearOf_snd_lt [of 1970 days] yo by simp
  then have "doy < sum_list (monthLengths y')"
    by (simp add: sum_monthLengths)
  from monthOf_snd_lt [OF this monthLengths_le, of 1] mo have "dom < 31" by simp
  then show "d < 100" using c by simp
  have "m' \<le> 1 + length (monthLengths y')"
    using monthOf_fst_le [of "monthLengths y'" 1 doy] mo by simp
  then show "m < 100" using c by (simp add: monthLengths_def)
qed

lemma civil_mono:
  assumes "days1 \<le> days2"
  shows "dateLe (civil days1) (civil days2)"
proof -
  obtain y1 doy1 where yo1: "yearOf 1970 days1 = (y1, doy1)"
    by (cases "yearOf 1970 days1") auto
  obtain y2 doy2 where yo2: "yearOf 1970 days2 = (y2, doy2)"
    by (cases "yearOf 1970 days2") auto
  obtain m1 dom1 where mo1: "monthOf (monthLengths y1) 1 doy1 = (m1, dom1)"
    by (cases "monthOf (monthLengths y1) 1 doy1") auto
  obtain m2 dom2 where mo2: "monthOf (monthLengths y2) 1 doy2 = (m2, dom2)"
    by (cases "monthOf (monthLengths y2) 1 doy2") auto
  have c1: "civil days1 = (y1, m1, dom1 + 1)" and c2: "civil days2 = (y2, m2, dom2 + 1)"
    using yo1 yo2 mo1 mo2 by (simp_all add: civil_def)
  from yearOf_mono [OF assms, of 1970] yo1 yo2
  have ym: "y1 < y2 \<or> (y1 = y2 \<and> doy1 \<le> doy2)" by simp
  show ?thesis
  proof (cases "y1 < y2")
    case True
    then show ?thesis by (simp add: c1 c2 dateLe_def)
  next
    case False
    with ym have y: "y1 = y2" and d: "doy1 \<le> doy2" by simp_all
    from monthOf_mono [OF d, of "monthLengths y2" 1] mo1 mo2 y
    have "m1 < m2 \<or> (m1 = m2 \<and> dom1 \<le> dom2)" by simp
    with y show ?thesis by (simp add: c1 c2 dateLe_def)
  qed
qed

lemma less_append_same_length:
  fixes xs ys :: string
  shows "length xs = length ys \<Longrightarrow> xs < ys \<Longrightarrow> xs @ us < ys @ vs"
  by (induction xs ys rule: list_induct2) auto

lemma less_append_prefix:
  fixes xs :: string
  shows "a < b \<Longrightarrow> xs @ a # us < xs @ b # vs"
  by (induction xs) auto

lemma less_append_left:
  fixes xs :: string
  shows "us < vs \<Longrightarrow> xs @ us < xs @ vs"
  by (induction xs) auto

lemma digitChar_less: "a mod 10 < b mod 10 \<Longrightarrow> digitChar a < digitChar b"
proof -
  assume l: "a mod 10 < b mod 10"
  have "48 + a mod 10 < 256" "48 + b mod 10 < 256"
    by simp_all
  then have "(48 + a mod 10) mod 256 < (48 + b mod 10) mod 256"
    using l by simp
  then show ?thesis
    by (simp add: less_char_def digitChar_def)
qed

lemma digitChar_eq: "a mod 10 = b mod 10 \<Longrightarrow> digitChar a = digitChar b"
  by (simp add: digitChar_def)

lemma length_pad2 [simp]: "length (pad2 n) = 2"
  by (simp add: pad2_def)

lemma length_pad4 [simp]: "length (pad4 n) = 4"
  by (simp add: pad4_def)

lemma less_by_mod:
  fixes x y :: nat
  assumes "x < y" "x div 10 = y div 10"
  shows "x mod 10 < y mod 10"
proof -
  have "x = 10 * (x div 10) + x mod 10" "y = 10 * (y div 10) + y mod 10" by simp_all
  with assms show ?thesis by linarith
qed

lemma pad2_less_same_hundred:
  assumes "a < b" "a div 100 = b div 100"
  shows "pad2 a < pad2 b"
proof (cases "a div 10 < b div 10")
  case True
  have "a div 10 div 10 = b div 10 div 10"
    using assms(2) by (simp add: div_mult2_eq [symmetric])
  with True have "(a div 10) mod 10 < (b div 10) mod 10" by (rule less_by_mod)
  then have "digitChar (a div 10) < digitChar (b div 10)" by (rule digitChar_less)
  then show ?thesis by (simp add: pad2_def)
next
  case False
  have "a div 10 \<le> b div 10" using assms(1) by (simp add: div_le_mono)
  with False have e: "a div 10 = b div 10" by simp
  with assms(1) have "a mod 10 < b mod 10" by (rule less_by_mod)
  then have "digitChar a < digitChar b" by (rule digitChar_less)
  with e show ?thesis by (simp add: pad2_def)
qed

lemma pad2_less:
  assumes "a < b" "b < 100"
  shows "pad2 a < pad2 b"
  using assms by (intro pad2_less_same_hundred) simp_all

lemma pad4_less:
  assumes "a < b" "b < 10000"
  shows "pad4 a < pad4 b"
proof (cases "a div 100 < b div 100")
  case True
  have "b div 100 < 100" using assms(2) by simp
  with True have "pad2 (a div 100) < pad2 (b div 100)" by (rule pad2_less)
  then show ?thesis
    unfolding pad4_def by (intro less_append_same_length) simp_all
next
  case False
  have "a div 100 \<le> b div 100" using assms(1) by (simp add: div_le_mono)
  with False have e: "a div 100 = b div 100" by simp
  with assms(1) have "pad2 a < pad2 b" by (rule pad2_less_same_hundred)
  then show ?thesis
    unfolding pad4_def e by (rule less_append_left)
qed

lemma length_dateText [simp]: "length (dateText c) = 10"
  by (cases c) (simp add: dateText_def)

lemma dateText_mono:
  assumes "dateLe (y1, m1, d1) (y2, m2, d2)"
    and "y2 \<le> 9999" "m2 < 100" "d2 < 100"
  shows "dateText (y1, m1, d1) \<le> dateText (y2, m2, d2)"
proof -
  consider (y) "y1 < y2" | (m) "y1 = y2" "m1 < m2" | (d) "y1 = y2" "m1 = m2" "d1 < d2"
    | (e) "y1 = y2" "m1 = m2" "d1 = d2"
    using assms(1) unfolding dateLe_def prod.case by linarith
  then show ?thesis
  proof cases
    case y
    with assms(2) have "pad4 y1 < pad4 y2" by (intro pad4_less) simp_all
    then have "dateText (y1, m1, d1) < dateText (y2, m2, d2)"
      unfolding dateText_def prod.case by (intro less_append_same_length) simp_all
    then show ?thesis by simp
  next
    case m
    with assms(3) have "pad2 m1 < pad2 m2" by (intro pad2_less)
    then have "pad2 m1 @ ''-'' @ pad2 d1 < pad2 m2 @ ''-'' @ pad2 d2"
      by (intro less_append_same_length) simp_all
    then have "dateText (y1, m1, d1) < dateText (y2, m2, d2)"
      unfolding dateText_def prod.case m(1)
      by (intro less_append_left)
    then show ?thesis by simp
  next
    case d
    with assms(4) have "pad2 d1 < pad2 d2" by (intro pad2_less)
    then have "dateText (y1, m1, d1) < dateText (y2, m2, d2)"
      unfolding dateText_def prod.case d(1,2)
      by (intro less_append_left)
    then show ?thesis by simp
  next
    case e
    then show ?thesis by simp
  qed
qed

text \<open>
  The ISO text of a later instant of a four-digit year is greater, as a text, than what
  \<open>datetime('now')\<close> gives for an earlier one.
\<close>

lemma expiry_text_greater:
  assumes "t1 \<le> t2" and "utcYear t2 \<le> 9999"
  shows "\<exists>nowText expiresAt. sqlDatetime t1 = Some nowText \<and> toISOString t2 = Inr expiresAt
           \<and> nowText < expiresAt"
proof -
  obtain y1 m1 d1 where c1: "civil (t1 div 86400000) = (y1, m1, d1)"
    by (cases "civil (t1 div 86400000)") auto
  obtain y2 m2 d2 where c2: "civil (t2 div 86400000) = (y2, m2, d2)"
    by (cases "civil (t2 div 86400000)") auto
  have y2: "y2 \<le> 9999"
    using assms(2) c2 by (simp add: utcYear_def)
  have "t1 div 86400000 \<le> t2 div 86400000"
    using assms(1) by (rule div_le_mono)
  from civil_mono [OF this] have le: "dateLe (y1, m1, d1) (y2, m2, d2)"
    by (simp add: c1 c2)
  then have y1: "y1 \<le> 9999"
    using y2 by (auto simp: dateLe_def)
  note b2 = civil_bounds [OF c2]
  have dm: "dateText (y1, m1, d1) \<le> dateText (y2, m2, d2)"
    using le y2 b2 by (rule dateText_mono)
  have small: "\<not> t2 > 8640000000000000"
  proof
    assume big: "t2 > 8640000000000000"
    have "1970 + (t2 div 86400000) div 366 \<le> fst (yearOf 1970 (t2 div 86400000))"
      by (rule yearOf_lower)
    also have "\<dots> = y2"
      using c2 by (simp add: civil_def split: prod.splits)
    finally have "(t2 div 86400000) div 366 \<le> 8029"
      using y2 by simp
    then have "(t2 div 86400000) div 366 < 8030"
      by simp
    then have "t2 div 86400000 < 8030 * 366"
      by (simp only: div_less_iff_less_mult [of 366, simplified])
    then have "t2 < 8030 * 366 * 86400000"
      by (simp only: div_less_iff_less_mult [of 86400000, simplified])
    with big show False by simp
  qed
  define s where "s = dateText (y1, m1, d1) @ '' '' @ clockText (t1 mod 86400000)"
  define e where "e = dateText (y2, m2, d2) @ ''T'' @ clockText (t2 mod 86400000) @ ''.''
                        @ pad3 (t2 mod 1000) @ ''Z''"
  have s: "sqlDatetime t1 = Some s"
    using y1 by (simp add: sqlDatetime_def c1 s_def)
  have e: "toISOString t2 = Inr e"
    using y2 small by (simp add: toISOString_def c2 e_def)
  have "s < e"
  proof (cases "dateText (y1, m1, d1) = dateText (y2, m2, d2)")
    case True
    have "(CHR '' '' :: char) < CHR ''T''" by simp
    then show ?thesis
      unfolding s_def e_def True by (simp add: less_append_prefix)
  next
    case False
    with dm have "dateText (y1, m1, d1) < dateText (y2, m2, d2)" by simp
    then show ?thesis
      unfolding s_def e_def by (intro less_append_same_length) simp_all
  qed
  with s e show ?thesis by blast
qed

lemma upsert_rows:
  "market_matches (snd (upsertMarketMatch database now m))
     = filter (\<lambda>r. polymarket_id r \<noteq> polymarketId m) (market_matches database)
   \<or> (\<exists>row. polymarket_id row = polymarketId m
          \<and> market_matches (snd (upsertMarketMatch database now m))
              = filter (\<lambda>r. polymarket_id r \<noteq> polymarketId m) (market_matches database) @ [row])"
  by (auto simp: upsertMarketMatch_def Let_def split: sum.splits option.splits)

lemma filter_same_id_deleted:
  "filter (\<lambda>r. polymarket_id r = pid) (filter (\<lambda>r. polymarket_id r \<noteq> pid) rows) = []"
  by (induction rows) auto

lemma filter_other_id_deleted:
  "filter (\<lambda>r. polymarket_id r \<noteq> pid) (filter (\<lambda>r. polymarket_id r \<noteq> pid) rows)
     = filter (\<lambda>r. polymarket_id r \<noteq> pid) rows"
  by simp

lemma upsert_success:
  assumes "polymarketId m \<in> set (market_ids database)"
    and "sqlDatetime now = Some matchedAt"
    and "toISOString (now + ttlOrDefault m * 60 * 60 * 1000) = Inr expiresAt"
  shows "fst (upsertMarketMatch database now m) = None"
    and "\<exists>rid. market_matches (snd (upsertMarketMatch database now m))
           = filter (\<lambda>r. polymarket_id r \<noteq> polymarketId m) (market_matches database)
             @ [insertedRow rid m matchedAt expiresAt]"
  using assms by (simp_all add: upsertMarketMatch_def Let_def insertedRow_def)

lemma getMarketMatch_single:
  assumes "market_matches database = others @ [row]"
    and "filter (\<lambda>r. polymarket_id r = pid) others = []"
    and "polymarket_id row = pid"
    and "sqlDatetime now = Some nowText" and "nowText < expires_at row"
  shows "getMarketMatch database now pid = Some row"
proof -
  have "filter (\<lambda>r. polymarket_id r = pid \<and> expires_at r > nowText) others = []"
    using assms(2) by (auto simp: filter_empty_conv)
  then have "filter (\<lambda>r. polymarket_id r = pid \<and> expires_at r > nowText)
               (market_matches database) = [row]"
    using assms(1,3,5) by simp
  then show ?thesis
    using assms(4) by (simp add: getMarketMatch_def)
qed

lemma getMarketMatch_no_rows:
  "filter (\<lambda>r. polymarket_id r = pid) (market_matches database) = [] \<Longrightarrow>
   getMarketMatch database now pid = None"
proof -
  assume a: "filter (\<lambda>r. polymarket_id r = pid) (market_matches database) = []"
  have "filter (\<lambda>r. polymarket_id r = pid \<and> expires_at r > nowText) (market_matches database) = []"
    for nowText
    using a by (auto simp: filter_empty_conv)
  then show ?thesis
    by (simp add: getMarketMatch_def split: option.splits)
qed

lemma toISOString_Inr:
  assumes "t \<le> 8640000000000000"
  shows "\<exists>e. toISOString t = Inr e"
proof -
  obtain y mo d where "civil (t div 86400000) = (y, mo, d)"
    by (cases "civil (t div 86400000)") auto
  then show ?thesis
    using assms by (simp add: toISOString_def)
qed

lemma upsert_foreign_key:
  assumes "polymarketId m \<notin> set (market_ids database)"
    and "now + ttlOrDefault m * 60 * 60 * 1000 \<le> 8640000000000000"
  shows "upsertMarketMatch database now m =
     (Some ForeignKeyConstraint,
      database\<lparr>market_matches :=
        filter (\<lambda>r. polymarket_id r \<noteq> polymarketId m) (market_matches database)\<rparr>)"
proof -
  from toISOString_Inr [OF assms(2)]
  obtain e where "toISOString (now + ttlOrDefault m * 60 * 60 * 1000) = Inr e"
    by blast
  then show ?thesis
    using assms(1) by (simp add: upsertMarketMatch_def Let_def)
qed

lemma upsert_range_error:
  assumes "8640000000000000 < now + ttlOrDefault m * 60 * 60 * 1000"
  shows "upsertMarketMatch database now m =
     (Some RangeError,
      database\<lparr>market_matches :=
        filter (\<lambda>r. polymarket_id r \<noteq> polymarketId m) (market_matches database)\<rparr>)"
  using assms by (simp add: upsertMarketMatch_def Let_def toISOString_def)

text \<open>
  Beyond the year 9999 the ISO text begins with a sign, which sorts before every digit:
  such an expiry is never greater than what \<open>datetime('now')\<close> gives.
\<close>

lemma plus_less_digitChar: "CHR ''+'' < digitChar n"
proof -
  have "48 + n mod 10 < 256"
    by simp
  then have "(43 :: nat) < (48 + n mod 10) mod 256"
    by simp
  then show ?thesis
    by (simp add: less_char_def digitChar_def)
qed

lemma sqlDatetime_head:
  assumes "sqlDatetime t = Some s"
  shows "\<exists>n rest. s = digitChar n # rest"
proof -
  obtain y mo d where c: "civil (t div 86400000) = (y, mo, d)"
    by (cases "civil (t div 86400000)") auto
  from assms have "s = dateText (y, mo, d) @ '' '' @ clockText (t mod 86400000)"
    by (simp add: sqlDatetime_def c split: if_splits)
  then have "s = digitChar (y div 100 div 10) # tl s"
    by (simp add: dateText_def pad4_def pad2_def)
  then show ?thesis
    by blast
qed

lemma sqlDatetime_Some:
  assumes "utcYear t \<le> 9999"
  shows "\<exists>s. sqlDatetime t = Some s"
proof -
  obtain y mo d where c: "civil (t div 86400000) = (y, mo, d)"
    by (cases "civil (t div 86400000)") auto
  with assms have "y \<le> 9999"
    by (simp add: utcYear_def)
  then show ?thesis
    by (simp add: sqlDatetime_def c)
qed

lemma toISOString_signed:
  assumes "t \<le> 8640000000000000" and "9999 < utcYear t"
  shows "\<exists>rest. toISOString t = Inr (CHR ''+'' # rest)"
proof -
  obtain y mo d where c: "civil (t div 86400000) = (y, mo, d)"
    by (cases "civil (t div 86400000)") auto
  with assms(2) have "\<not> y \<le> 9999"
    by (simp add: utcYear_def)
  then show ?thesis
    using assms(1) by (simp add: toISOString_def c)
qed

lemma signed_not_greater:
  assumes "sqlDatetime t = Some nowText"
  shows "\<not> nowText < CHR ''+'' # rest"
proof -
  from sqlDatetime_head [OF assms] obtain n rest' where s: "nowText = digitChar n # rest'"
    by blast
  have "\<not> digitChar n < CHR ''+''" and "digitChar n \<noteq> CHR ''+''"
    using plus_less_digitChar [of n] by auto
  then show ?thesis
    unfolding s by simp
qed

lemma getMarketMatch_not_live:
  assumes "market_matches database = others @ [row]"
    and "filter (\<lambda>r. polymarket_id r = pid) others = []"
    and "\<And>nowText. sqlDatetime now = Some nowText \<Longrightarrow> \<not> nowText < expires_at row"
  shows "getMarketMatch database now pid = None"
proof (cases "sqlDatetime now")
  case None
  then show ?thesis
    by (simp add: getMarketMatch_def)
next
  case (Some nowText)
  have "filter (\<lambda>r. polymarket_id r = pid \<and> expires_at r > nowText) others = []"
    using assms(2) by (auto simp: filter_empty_conv)
  then have "filter (\<lambda>r. polymarket_id r = pid \<and> expires_at r > nowText)
               (market_matches database) = []"
    using assms(1) assms(3) [OF Some] by simp
  then show ?thesis
    using Some by (simp add: getMarketMatch_def)
qed

lemma utcYear_lower: "1970 + (t div 86400000) div 366 \<le> utcYear t"
proof -
  have "utcYear t = fst (yearOf 1970 (t div 86400000))"
    by (simp add: utcYear_def civil_def split: prod.splits)
  then show ?thesis
    using yearOf_lower [of 1970 "t div 86400000"] by simp
qed

text \<open>
  C9 (amended). For every database state and every match, after \<open>upsertMarketMatch\<close>
  at most one row exists for the source market id and the rows of the other ids are as
  before. The TTL is the given number of hours, and 24 hours when none or 0 is given; the
  expiry is the instant of the store plus the TTL.
  (1) When the id is a key of the table \<open>markets\<close> and the expiry falls in a year of at
  most four digits, the call throws nothing, exactly one row exists for the id, and a
  \<open>getMarketMatch\<close> for the id at any instant from the store up to the expiry returns
  that row, with every field as it was passed, \<open>matched_entities\<close> its JSON text and
  the two timestamps those of the store.
  (2) When the id is not a key of \<open>markets\<close> and the expiry is a time value of
  \<open>Date\<close>, the \<open>INSERT\<close> throws a foreign-key error after the \<open>DELETE\<close> was
  applied: no row exists for the id and \<open>getMarketMatch\<close> returns \<open>null\<close>.
  (3) When the expiry is beyond the greatest time value, \<open>toISOString\<close> throws a
  \<open>RangeError\<close> after the \<open>DELETE\<close> was applied: no row exists for the id and
  \<open>getMarketMatch\<close> returns \<open>null\<close>.
  (4) When the id is a key of \<open>markets\<close>, the store happens in a year of at most four
  digits and the expiry is a time value in a later year of more than four digits, the call
  throws nothing and exactly one row exists for the id, but its \<open>expires_at\<close> begins
  with a sign and \<open>getMarketMatch\<close> returns \<open>null\<close> at every instant.
\<close>

theorem upsert_then_get:
  "length (filter (\<lambda>r. polymarket_id r = polymarketId m)
             (market_matches (snd (upsertMarketMatch database now m)))) \<le> 1
   \<and> filter (\<lambda>r. polymarket_id r \<noteq> polymarketId m)
        (market_matches (snd (upsertMarketMatch database now m)))
       = filter (\<lambda>r. polymarket_id r \<noteq> polymarketId m) (market_matches database)
   \<and> (\<forall>h. ttlHours m = Some h \<and> 0 < h \<longrightarrow> ttlOrDefault m = h)
   \<and> (ttlHours m = None \<or> ttlHours m = Some 0 \<longrightarrow> ttlOrDefault m = 24)
   \<and> (polymarketId m \<in> set (market_ids database)
        \<and> now \<le> now' \<and> now' < now + ttlOrDefault m * 60 * 60 * 1000
        \<and> utcYear (now + ttlOrDefault m * 60 * 60 * 1000) \<le> 9999 \<longrightarrow>
        fst (upsertMarketMatch database now m) = None
        \<and> (\<exists>row. filter (\<lambda>r. polymarket_id r = polymarketId m)
                    (market_matches (snd (upsertMarketMatch database now m))) = [row]
              \<and> getMarketMatch (snd (upsertMarketMatch database now m)) now' (polymarketId m)
                  = Some row
              \<and> polymarket_id row = polymarketId m
              \<and> polymarket_question row = polymarketQuestion m
              \<and> kalshi_event_ticker row = m_kalshiEventTicker m
              \<and> kalshi_market_ticker row = m_kalshiMarketTicker m
              \<and> kalshi_event_title row = m_kalshiEventTitle m
              \<and> row_similarity row = m_similarity m
              \<and> row_confidence row = m_confidence m
              \<and> match_method row = m_matchMethod m
              \<and> matched_entities row = Some (stringifyStrings (m_matchedEntities m))
              \<and> row_reasoning row = m_reasoning m
              \<and> Some (matched_at row) = sqlDatetime now
              \<and> Inr (expires_at row) = toISOString (now + ttlOrDefault m * 60 * 60 * 1000)))
   \<and> (polymarketId m \<notin> set (market_ids database)
        \<and> now + ttlOrDefault m * 60 * 60 * 1000 \<le> maxTime \<longrightarrow>
        fst (upsertMarketMatch database now m) = Some ForeignKeyConstraint
        \<and> filter (\<lambda>r. polymarket_id r = polymarketId m)
             (market_matches (snd (upsertMarketMatch database now m))) = []
        \<and> getMarketMatch (snd (upsertMarketMatch database now m)) now' (polymarketId m) = None)
   \<and> (maxTime < now + ttlOrDefault m * 60 * 60 * 1000 \<longrightarrow>
        fst (upsertMarketMatch database now m) = Some RangeError
        \<and> filter (\<lambda>r. polymarket_id r = polymarketId m)
             (market_matches (snd (upsertMarketMatch database now m))) = []
        \<and> getMarketMatch (snd (upsertMarketMatch database now m)) now' (polymarketId m) = None)
   \<and> (polymarketId m \<in> set (market_ids database) \<and> utcYear now \<le> 9999
        \<and> 9999 < utcYear (now + ttlOrDefault m * 60 * 60 * 1000)
        \<and> now + ttlOrDefault m * 60 * 60 * 1000 \<le> maxTime \<longrightarrow>
        fst (upsertMarketMatch database now m) = None
        \<and> (\<exists>row rest. filter (\<lambda>r. polymarket_id r = polymarketId m)
                         (market_matches (snd (upsertMarketMatch database now m))) = [row]
              \<and> toISOString (now + ttlOrDefault m * 60 * 60 * 1000) = Inr (expires_at row)
              \<and> expires_at row = CHR ''+'' # rest)
        \<and> getMarketMatch (snd (upsertMarketMatch database now m)) now' (polymarketId m) = None)"
proof -
  define pid where "pid = polymarketId m"
  define db' where "db' = snd (upsertMarketMatch database now m)"
  define others where "others = filter (\<lambda>r. polymarket_id r \<noteq> pid) (market_matches database)"
  define expiry where "expiry = now + ttlOrDefault m * 60 * 60 * 1000"
  have no: "filter (\<lambda>r. polymarket_id r = pid) others = []"
    unfolding others_def by (rule filter_same_id_deleted)
  have oo: "filter (\<lambda>r. polymarket_id r \<noteq> pid) others = others"
    unfolding others_def by simp
  have rows: "market_matches db' = others
      \<or> (\<exists>row. polymarket_id row = pid \<and> market_matches db' = others @ [row])"
    unfolding db'_def others_def pid_def by (rule upsert_rows)
  have one: "length (filter (\<lambda>r. polymarket_id r = pid) (market_matches db')) \<le> 1"
    using rows no by auto
  have same: "filter (\<lambda>r. polymarket_id r \<noteq> pid) (market_matches db') = others"
    using rows oo by auto
  have main: "fst (upsertMarketMatch database now m) = None
        \<and> (\<exists>row. filter (\<lambda>r. polymarket_id r = pid) (market_matches db') = [row]
              \<and> getMarketMatch db' now' pid = Some row
              \<and> polymarket_id row = polymarketId m
              \<and> polymarket_question row = polymarketQuestion m
              \<and> kalshi_event_ticker row = m_kalshiEventTicker m
              \<and> kalshi_market_ticker row = m_kalshiMarketTicker m
              \<and> kalshi_event_title row = m_kalshiEventTitle m
              \<and> row_similarity row = m_similarity m
              \<and> row_confidence row = m_confidence m
              \<and> match_method row = m_matchMethod m
              \<and> matched_entities row = Some (stringifyStrings (m_matchedEntities m))
              \<and> row_reasoning row = m_reasoning m
              \<and> Some (matched_at row) = sqlDatetime now
              \<and> Inr (expires_at row) = toISOString expiry)"
    if fk: "polymarketId m \<in> set (market_ids database)"
      and le: "now \<le> now'" and lt: "now' < expiry" and yr: "utcYear expiry \<le> 9999"
  proof -
    have "now \<le> expiry" using le lt by simp
    from expiry_text_greater [OF this yr] obtain matchedAt expiresAt
      where ma: "sqlDatetime now = Some matchedAt" and ex: "toISOString expiry = Inr expiresAt"
      by blast
    have "now' \<le> expiry" using lt by simp
    from expiry_text_greater [OF this yr] ex obtain nowText
      where nt: "sqlDatetime now' = Some nowText" and gt: "nowText < expiresAt"
      by auto
    note us = upsert_success [OF fk ma ex [unfolded expiry_def]]
    from us(2) obtain rid
      where r: "market_matches db' = others @ [insertedRow rid m matchedAt expiresAt]"
      unfolding db'_def others_def pid_def by blast
    define row where "row = insertedRow rid m matchedAt expiresAt"
    have rp: "polymarket_id row = pid" "expires_at row = expiresAt" "matched_at row = matchedAt"
      by (simp_all add: row_def insertedRow_def pid_def)
    have f: "filter (\<lambda>r. polymarket_id r = pid) (market_matches db') = [row]"
      unfolding r row_def [symmetric] using no rp(1) by simp
    have g: "getMarketMatch db' now' pid = Some row"
      using r [folded row_def] no rp(1) nt gt [folded rp(2)] by (rule getMarketMatch_single)
    have fields: "polymarket_id row = polymarketId m"
        "polymarket_question row = polymarketQuestion m"
        "kalshi_event_ticker row = m_kalshiEventTicker m"
        "kalshi_market_ticker row = m_kalshiMarketTicker m"
        "kalshi_event_title row = m_kalshiEventTitle m"
        "row_similarity row = m_similarity m"
        "row_confidence row = m_confidence m"
        "match_method row = m_matchMethod m"
        "matched_entities row = Some (stringifyStrings (m_matchedEntities m))"
        "row_reasoning row = m_reasoning m"
      by (simp_all add: row_def insertedRow_def)
    have ts: "Some (matched_at row) = sqlDatetime now" "Inr (expires_at row) = toISOString expiry"
      using ma ex rp by simp_all
    show ?thesis
      using us(1) f g fields ts by blast
  qed
  have thrown: "filter (\<lambda>r. polymarket_id r = pid) (market_matches db') = []
        \<and> getMarketMatch db' now' pid = None"
    if "upsertMarketMatch database now m =
          (err, database\<lparr>market_matches :=
                  filter (\<lambda>r. polymarket_id r \<noteq> polymarketId m) (market_matches database)\<rparr>)"
    for err
  proof -
    have "market_matches db' = others"
      unfolding db'_def that others_def pid_def by simp
    then have f: "filter (\<lambda>r. polymarket_id r = pid) (market_matches db') = []"
      using no by simp
    from f have "getMarketMatch db' now' pid = None"
      by (rule getMarketMatch_no_rows)
    with f show ?thesis by simp
  qed
  have foreign: "fst (upsertMarketMatch database now m) = Some ForeignKeyConstraint
        \<and> filter (\<lambda>r. polymarket_id r = pid) (market_matches db') = []
        \<and> getMarketMatch db' now' pid = None"
    if "polymarketId m \<notin> set (market_ids database)" and "expiry \<le> maxTime"
  proof -
    have "expiry \<le> 8640000000000000"
      using that(2) by (simp add: maxTime_def)
    note u = upsert_foreign_key [OF that(1) this [unfolded expiry_def]]
    show ?thesis
      using thrown [OF u] by (simp add: u)
  qed
  have range: "fst (upsertMarketMatch database now m) = Some RangeError
        \<and> filter (\<lambda>r. polymarket_id r = pid) (market_matches db') = []
        \<and> getMarketMatch db' now' pid = None"
    if "maxTime < expiry"
  proof -
    have "8640000000000000 < expiry"
      using that by (simp add: maxTime_def)
    note u = upsert_range_error [OF this [unfolded expiry_def]]
    show ?thesis
      using thrown [OF u] by (simp add: u)
  qed
  have signed: "fst (upsertMarketMatch database now m) = None
        \<and> (\<exists>row rest. filter (\<lambda>r. polymarket_id r = pid) (market_matches db') = [row]
              \<and> toISOString expiry = Inr (expires_at row)
              \<and> expires_at row = CHR ''+'' # rest)
        \<and> getMarketMatch db' now' pid = None"
    if fk: "polymarketId m \<in> set (market_ids database)" and yn: "utcYear now \<le> 9999"
      and ye: "9999 < utcYear expiry" and mx: "expiry \<le> maxTime"
  proof -
    from sqlDatetime_Some [OF yn] obtain matchedAt where ma: "sqlDatetime now = Some matchedAt"
      by blast
    have "expiry \<le> 8640000000000000"
      using mx by (simp add: maxTime_def)
    from toISOString_signed [OF this ye] obtain rest
      where ex: "toISOString expiry = Inr (CHR ''+'' # rest)"
      by blast
    note us = upsert_success [OF fk ma ex [unfolded expiry_def]]
    from us(2) obtain rid
      where r: "market_matches db' = others @ [insertedRow rid m matchedAt (CHR ''+'' # rest)]"
      unfolding db'_def others_def pid_def by blast
    define row where "row = insertedRow rid m matchedAt (CHR ''+'' # rest)"
    have rp: "polymarket_id row = pid" "expires_at row = CHR ''+'' # rest"
      by (simp_all add: row_def insertedRow_def pid_def)
    have f: "filter (\<lambda>r. polymarket_id r = pid) (market_matches db') = [row]"
      unfolding r row_def [symmetric] using no rp(1) by simp
    have "\<not> nowText < expires_at row" if "sqlDatetime now' = Some nowText" for nowText
      unfolding rp(2) using that by (rule signed_not_greater)
    with r [folded row_def] no have g: "getMarketMatch db' now' pid = None"
      by (rule getMarketMatch_not_live)
    show ?thesis
      using us(1) f g ex rp(2) by auto
  qed
  have ttl: "(\<forall>h. ttlHours m = Some h \<and> 0 < h \<longrightarrow> ttlOrDefault m = h)
        \<and> (ttlHours m = None \<or> ttlHours m = Some 0 \<longrightarrow> ttlOrDefault m = 24)"
    by (auto simp: ttlOrDefault_def)
  show ?thesis
    using one same ttl main foreign range signed
    unfolding pid_def db'_def others_def expiry_def by blast
qed

lemma ttl_example: "ttlOrDefault match_example = 24"
  by (simp add: ttlOrDefault_def match_example_def)

lemma ttl_forever: "ttlOrDefault match_forever = 100000000"
  by (simp add: ttlOrDefault_def match_forever_def)

lemma ttl_beyond: "ttlOrDefault match_beyond = 3000000000"
  by (simp add: ttlOrDefault_def match_beyond_def)

lemma year_example:
  "utcYear 1793664000123 = 2026"
  "utcYear (1793664000123 + 24 * 60 * 60 * 1000) = 2026"
  by (simp_all add: utcYear_def civil_def yearOf.simps daysInYear_def isLeap_def monthLengths_def)

lemma civil_example: "civil 20760 = (2026, 11, 3)" "civil 20761 = (2026, 11, 4)"
  by (simp_all add: civil_def yearOf.simps daysInYear_def isLeap_def monthLengths_def)

lemma digitChar_value: "digitChar n = ''0123456789'' ! (n mod 10)"
proof -
  define k where "k = n mod 10"
  have "k < 10"
    unfolding k_def by simp
  then have "k = 0 \<or> k = 1 \<or> k = 2 \<or> k = 3 \<or> k = 4 \<or> k = 5 \<or> k = 6 \<or> k = 7 \<or> k = 8
      \<or> k = 9"
    by arith
  then show ?thesis
    unfolding digitChar_def k_def [symmetric]
    by (elim disjE) (simp_all add: char_of_def bit_Suc_0_iff)
qed

lemma stamps_example:
  "sqlDatetime 1793664000123 = Some ''2026-11-03 00:00:00''"
  "toISOString (1793664000123 + 24 * 60 * 60 * 1000) = Inr ''2026-11-04T00:00:00.123Z''"
  by (simp_all add: sqlDatetime_def toISOString_def civil_example dateText_def clockText_def
      pad2_def pad3_def pad4_def digitChar_value)

lemma entities_example:
  "stringifyStrings (m_matchedEntities match_example)
     = ''['' @ [CHR 0x22] @ ''trump'' @ [CHR 0x22] @ '']''"
  by (simp add: match_example_def stringifyStrings_def quoteString_def escapeChar_def
      char_of_def bit_Suc_0_iff)

lemma year_forever: "9999 < utcYear (1793664000123 + 100000000 * 60 * 60 * 1000)"
proof -
  have "(9999 :: nat) < 1970 + ((1793664000123 + 100000000 * 60 * 60 * 1000) div 86400000) div 366"
    by simp
  also have "\<dots> \<le> utcYear (1793664000123 + 100000000 * 60 * 60 * 1000)"
    by (rule utcYear_lower)
  finally show ?thesis .
qed

theorem upsert_then_get_witness:
  "polymarketId match_example \<in> set (market_ids db_example)
   \<and> (1793664000123 :: nat) \<le> 1793664001000
   \<and> 1793664001000 < 1793664000123 + ttlOrDefault match_example * 60 * 60 * 1000
   \<and> utcYear (1793664000123 + ttlOrDefault match_example * 60 * 60 * 1000) = 2026
   \<and> fst (upsertMarketMatch db_example 1793664000123 match_example) = None
   \<and> (\<exists>row. filter (\<lambda>r. polymarket_id r = ''m1'')
               (market_matches (snd (upsertMarketMatch db_example 1793664000123 match_example)))
               = [row]
          \<and> getMarketMatch (snd (upsertMarketMatch db_example 1793664000123 match_example))
               1793664001000 ''m1'' = Some row
          \<and> polymarket_question row = ''Will Trump win?''
          \<and> kalshi_event_ticker row = Some ''K1''
          \<and> row_similarity row = 9 / 10 \<and> row_confidence row = 90
          \<and> match_method row = ''ai''
          \<and> matched_entities row = Some (''['' @ [CHR 0x22] @ ''trump'' @ [CHR 0x22] @ '']'')
          \<and> matched_at row = ''2026-11-03 00:00:00''
          \<and> expires_at row = ''2026-11-04T00:00:00.123Z'')
   \<and> polymarketId match_example \<notin> set (market_ids db_no_markets)
   \<and> 1793664000123 + ttlOrDefault match_example * 60 * 60 * 1000 \<le> maxTime
   \<and> fst (upsertMarketMatch db_no_markets 1793664000123 match_example)
       = Some ForeignKeyConstraint
   \<and> maxTime < 1793664000123 + ttlOrDefault match_beyond * 60 * 60 * 1000
   \<and> fst (upsertMarketMatch db_example 1793664000123 match_beyond) = Some RangeError
   \<and> getMarketMatch (snd (upsertMarketMatch db_example 1793664000123 match_beyond))
        1793664001000 (polymarketId match_beyond) = None
   \<and> polymarketId match_forever \<in> set (market_ids db_example)
   \<and> utcYear 1793664000123 = 2026
   \<and> 9999 < utcYear (1793664000123 + ttlOrDefault match_forever * 60 * 60 * 1000)
   \<and> 1793664000123 + ttlOrDefault match_forever * 60 * 60 * 1000 \<le> maxTime
   \<and> fst (upsertMarketMatch db_example 1793664000123 match_forever) = None
   \<and> getMarketMatch (snd (upsertMarketMatch db_example 1793664000123 match_forever))
        1793664001000 (polymarketId match_forever) = None"
proof -
  have p: "polymarketId match_example = ''m1''"
    by (simp add: match_example_def)
  have h: "polymarketId match_example \<in> set (market_ids db_example)
     \<and> (1793664000123 :: nat) \<le> 1793664001000
     \<and> 1793664001000 < 1793664000123 + ttlOrDefault match_example * 60 * 60 * 1000
     \<and> utcYear (1793664000123 + ttlOrDefault match_example * 60 * 60 * 1000) \<le> 9999"
    unfolding ttl_example year_example by (simp add: p db_example_def)
  have y: "utcYear (1793664000123 + ttlOrDefault match_example * 60 * 60 * 1000) = 2026"
    unfolding ttl_example by (rule year_example)
  from upsert_then_get [of match_example db_example 1793664000123 1793664001000] h
  have "fst (upsertMarketMatch db_example 1793664000123 match_example) = None
        \<and> (\<exists>row. filter (\<lambda>r. polymarket_id r = polymarketId match_example)
                    (market_matches (snd (upsertMarketMatch db_example 1793664000123 match_example)))
                    = [row]
              \<and> getMarketMatch (snd (upsertMarketMatch db_example 1793664000123 match_example))
                    1793664001000 (polymarketId match_example) = Some row
              \<and> polymarket_question row = polymarketQuestion match_example
              \<and> kalshi_event_ticker row = m_kalshiEventTicker match_example
              \<and> row_similarity row = m_similarity match_example
              \<and> row_confidence row = m_confidence match_example
              \<and> match_method row = m_matchMethod match_example
              \<and> matched_entities row = Some (stringifyStrings (m_matchedEntities match_example))
              \<and> Some (matched_at row) = sqlDatetime 1793664000123
              \<and> Inr (expires_at row)
                  = toISOString (1793664000123 + ttlOrDefault match_example * 60 * 60 * 1000))"
    by blast
  then have stored: "fst (upsertMarketMatch db_example 1793664000123 match_example) = None
     \<and> (\<exists>row. filter (\<lambda>r. polymarket_id r = ''m1'')
               (market_matches (snd (upsertMarketMatch db_example 1793664000123 match_example)))
               = [row]
          \<and> getMarketMatch (snd (upsertMarketMatch db_example 1793664000123 match_example))
               1793664001000 ''m1'' = Some row
          \<and> polymarket_question row = ''Will Trump win?''
          \<and> kalshi_event_ticker row = Some ''K1''
          \<and> row_similarity row = 9 / 10 \<and> row_confidence row = 90
          \<and> match_method row = ''ai''
          \<and> matched_entities row = Some (''['' @ [CHR 0x22] @ ''trump'' @ [CHR 0x22] @ '']'')
          \<and> matched_at row = ''2026-11-03 00:00:00''
          \<and> expires_at row = ''2026-11-04T00:00:00.123Z'')"
    unfolding p ttl_example stamps_example entities_example
    by (simp add: match_example_def)
  have hf: "polymarketId match_example \<notin> set (market_ids db_no_markets)
     \<and> 1793664000123 + ttlOrDefault match_example * 60 * 60 * 1000 \<le> maxTime"
    unfolding ttl_example by (simp add: db_no_markets_def maxTime_def)
  from upsert_then_get [of match_example db_no_markets 1793664000123 1793664001000] hf
  have foreign: "fst (upsertMarketMatch db_no_markets 1793664000123 match_example)
       = Some ForeignKeyConstraint"
    by blast
  have hb: "maxTime < 1793664000123 + ttlOrDefault match_beyond * 60 * 60 * 1000"
    unfolding ttl_beyond by (simp add: maxTime_def)
  from upsert_then_get [of match_beyond db_example 1793664000123 1793664001000] hb
  have beyond: "fst (upsertMarketMatch db_example 1793664000123 match_beyond) = Some RangeError
     \<and> getMarketMatch (snd (upsertMarketMatch db_example 1793664000123 match_beyond))
          1793664001000 (polymarketId match_beyond) = None"
    by blast
  have hs: "polymarketId match_forever \<in> set (market_ids db_example)
     \<and> utcYear 1793664000123 \<le> 9999
     \<and> 9999 < utcYear (1793664000123 + ttlOrDefault match_forever * 60 * 60 * 1000)
     \<and> 1793664000123 + ttlOrDefault match_forever * 60 * 60 * 1000 \<le> maxTime"
    unfolding ttl_forever year_example
    using year_forever by (simp add: match_forever_def match_example_def db_example_def maxTime_def)
  from upsert_then_get [of match_forever db_example 1793664000123 1793664001000] hs
  have forever: "fst (upsertMarketMatch db_example 1793664000123 match_forever) = None
     \<and> getMarketMatch (snd (upsertMarketMatch db_example 1793664000123 match_forever))
          1793664001000 (polymarketId match_forever) = None"
    by blast
  show ?thesis
    using h y stored hf foreign hb beyond hs forever year_example(1) by simp
qed

theorem upsert_then_get_counterexample:
  "polymarketId match_example \<notin> set (market_ids db_no_markets)
   \<and> 1793664001000 < 1793664000123 + ttlOrDefault match_example * 60 * 60 * 1000
   \<and> fst (upsertMarketMatch db_no_markets 1793664000123 match_example)
       = Some ForeignKeyConstraint
   \<and> market_matches (snd (upsertMarketMatch db_no_markets 1793664000123 match_example)) = []
   \<and> getMarketMatch (snd (upsertMarketMatch db_no_markets 1793664000123 match_example))
        1793664001000 (polymarketId match_example) = None"
proof -
  have fk: "polymarketId match_example \<notin> set (market_ids db_no_markets)"
    by (simp add: db_no_markets_def)
  have b: "1793664000123 + ttlOrDefault match_example * 60 * 60 * 1000 \<le> 8640000000000000"
    unfolding ttl_example by simp
  note u = upsert_foreign_key [OF fk b]
  have rows: "market_matches (snd (upsertMarketMatch db_no_markets 1793664000123 match_example)) = []"
    unfolding u by (simp add: db_no_markets_def)
  have "getMarketMatch (snd (upsertMarketMatch db_no_markets 1793664000123 match_example))
          1793664001000 (polymarketId match_example) = None"
    by (rule getMarketMatch_no_rows) (simp add: rows)
  then show ?thesis
    using fk rows unfolding ttl_example by (simp add: u)
qed

end
